theory Spec2Isabelle
  imports Main "HOL-Library.AList" "HOL-Library.Sublist"
begin

section \<open>JavaScript values, errors and events\<close>

text \<open>
  The library is TypeScript. Values whose static type is \<^verbatim>\<open>unknown\<close> or a schema-defined
  object are embedded as \<open>jsval\<close>. An object is the list of its own enumerable properties
  in enumeration order; a read by a name that the caller supplies also sees what the
  object inherits from \<^verbatim>\<open>Object.prototype\<close> (see \<open>lookup\<close> below), a read by one of the
  fixed names of the reducer does not. \<open>AList.update\<close> is the assignment of a property:
  in place when the key exists, appended otherwise. Numbers are carried, never computed
  with. Strings are compared and concatenated only; their lengths are counted in
  characters, which agrees with JavaScript on ASCII text.
\<close>

datatype jsval =
    JUndefined
  | JNull
  | JBool bool
  | JNum int
  | JStr string
  | JArr "jsval list"
  | JObj "(string \<times> jsval) list"

type_synonym jsobject = "(string \<times> jsval) list"

text \<open>
  Every \<^verbatim>\<open>throw\<close> is a value. \<open>Error m\<close> is \<^verbatim>\<open>new Error(m)\<close>; \<open>TypeError\<close> and
  \<open>RangeError\<close> are raised by the language itself (a property read on
  \<^verbatim>\<open>undefined\<close>, \<^verbatim>\<open>toISOString\<close> of an invalid date). \<open>ReadonlyEntityError\<close> and
  \<open>UninitializedError\<close> are the two lifecycle errors of the entity.
\<close>

datatype error =
    Error string
  | TypeError string
  | RangeError string
  | ReadonlyEntityError
  | UninitializedError

definition bindE :: "error + 'a \<Rightarrow> ('a \<Rightarrow> error + 'b) \<Rightarrow> error + 'b" where
  "bindE m f = (case m of Inl e \<Rightarrow> Inl e | Inr x \<Rightarrow> f x)"

fun mapE :: "('a \<Rightarrow> error + 'b) \<Rightarrow> 'a list \<Rightarrow> error + 'b list" where
  "mapE f [] = Inr []"
| "mapE f (x # xs) =
     (case f x of
        Inl e \<Rightarrow> Inl e
      | Inr y \<Rightarrow> (case mapE f xs of Inl e \<Rightarrow> Inl e | Inr ys \<Rightarrow> Inr (y # ys)))"

text \<open>
  \<^verbatim>\<open>BaseEventType\<close>, and the adapter's \<^verbatim>\<open>BaseEventTypeRow\<close>, which is the same
  shape with \<^verbatim>\<open>eventCreatedAt\<close> a \<^verbatim>\<open>Date\<close>: one record, the type of the timestamp
  its parameter.
\<close>

record 't base_event =
  eventId :: string
  eventName :: string
  eventCreatedAt :: 't
  entityName :: string
  entityId :: string
  body :: jsval

type_synonym event = "string base_event"

text \<open>
  \<^verbatim>\<open>v.k\<close> for a property name \<open>k\<close> that no built-in prototype defines (the reducer
  and the entity read \<^verbatim>\<open>title\<close>, \<^verbatim>\<open>content\<close>, \<^verbatim>\<open>author\<close>, \<^verbatim>\<open>tags\<close>,
  \<^verbatim>\<open>publishedAt\<close>, \<^verbatim>\<open>reason\<close>): a \<^verbatim>\<open>TypeError\<close> on \<^verbatim>\<open>undefined\<close> and
  \<^verbatim>\<open>null\<close>, the own property of an object, \<^verbatim>\<open>undefined\<close> when there is none.
\<close>

definition getProp :: "jsval \<Rightarrow> string \<Rightarrow> error + jsval" where
  "getProp v k =
     (case v of
        JUndefined \<Rightarrow> Inl (TypeError ''Cannot read properties of undefined'')
      | JNull \<Rightarrow> Inl (TypeError ''Cannot read properties of null'')
      | JObj ps \<Rightarrow> Inr (case map_of ps k of None \<Rightarrow> JUndefined | Some x \<Rightarrow> x)
      | _ \<Rightarrow> Inr JUndefined)"

text \<open>\<^verbatim>\<open>{...prevState}\<close>: spreading \<^verbatim>\<open>undefined\<close> adds no property.\<close>

definition spread :: "jsobject option \<Rightarrow> jsobject" where
  "spread prevState = (case prevState of None \<Rightarrow> [] | Some ps \<Rightarrow> ps)"

text \<open>JavaScript truthiness, as \<^verbatim>\<open>!\<close> and \<^verbatim>\<open>&&\<close> and \<^verbatim>\<open>if\<close> read a value.\<close>

definition truthy :: "jsval \<Rightarrow> bool" where
  "truthy v =
     (case v of
        JUndefined \<Rightarrow> False
      | JNull \<Rightarrow> False
      | JBool b \<Rightarrow> b
      | JNum n \<Rightarrow> n \<noteq> 0
      | JStr s \<Rightarrow> s \<noteq> []
      | JArr _ \<Rightarrow> True
      | JObj _ \<Rightarrow> True)"

text \<open>\<^verbatim>\<open>Array.prototype.join\<close> on strings.\<close>

fun join :: "string \<Rightarrow> string list \<Rightarrow> string" where
  "join sep [] = []"
| "join sep [x] = x"
| "join sep (x # y # ys) = x @ sep @ join sep (y # ys)"

section \<open>The article reducer (src/src/index.ts, \<^verbatim>\<open>articleReducer\<close>)\<close>

text \<open>
  The state is \<^verbatim>\<open>undefined\<close> before the first event (\<open>None\<close>) and an object after it.
  The reducer is a \<^verbatim>\<open>switch\<close> on \<^verbatim>\<open>event.eventName\<close> with a \<^verbatim>\<open>default\<close> arm; the
  only operation that can throw is the read of a property of \<^verbatim>\<open>event.body\<close>.
\<close>

definition articleEventNames :: "string list" where
  "articleEventNames =
     [''article:created'', ''article:title_updated'', ''article:content_updated'',
      ''article:tags_updated'', ''article:published'', ''article:unpublished'',
      ''article:archived'', ''article:unarchived'']"

definition articleReducer :: "jsobject option \<Rightarrow> event \<Rightarrow> error + jsobject option" where
  "articleReducer prevState event =
     (if eventName event = ''article:created'' then
        bindE (getProp (body event) ''title'') (\<lambda>title.
        bindE (getProp (body event) ''content'') (\<lambda>content.
        bindE (getProp (body event) ''author'') (\<lambda>author.
        bindE (getProp (body event) ''tags'') (\<lambda>tags.
          Inr (Some
            [(''title'', title),
             (''content'', content),
             (''author'', author),
             (''tags'', tags),
             (''isPublished'', JBool False),
             (''publishedAt'', JUndefined),
             (''isArchived'', JBool False),
             (''archivedReason'', JUndefined),
             (''archivedAt'', JUndefined)])))))
      else if eventName event = ''article:title_updated'' then
        bindE (getProp (body event) ''title'') (\<lambda>title.
          Inr (Some (AList.update ''title'' title (spread prevState))))
      else if eventName event = ''article:content_updated'' then
        bindE (getProp (body event) ''content'') (\<lambda>content.
          Inr (Some (AList.update ''content'' content (spread prevState))))
      else if eventName event = ''article:tags_updated'' then
        bindE (getProp (body event) ''tags'') (\<lambda>tags.
          Inr (Some (AList.update ''tags'' tags (spread prevState))))
      else if eventName event = ''article:published'' then
        bindE (getProp (body event) ''publishedAt'') (\<lambda>publishedAt.
          Inr (Some (AList.update ''publishedAt'' publishedAt
                      (AList.update ''isPublished'' (JBool True) (spread prevState)))))
      else if eventName event = ''article:unpublished'' then
        Inr (Some (AList.update ''publishedAt'' JUndefined
                    (AList.update ''isPublished'' (JBool False) (spread prevState))))
      else if eventName event = ''article:archived'' then
        bindE (getProp (body event) ''reason'') (\<lambda>reason.
          Inr (Some (AList.update ''archivedAt'' (JStr (eventCreatedAt event))
                      (AList.update ''archivedReason'' reason
                        (AList.update ''isArchived'' (JBool True) (spread prevState))))))
      else if eventName event = ''article:unarchived'' then
        Inr (Some (AList.update ''archivedAt'' JUndefined
                    (AList.update ''archivedReason'' JUndefined
                      (AList.update ''isArchived'' (JBool False) (spread prevState)))))
      else Inr prevState)"

section \<open>The Standard Schema provider (src/src/standard.ts)\<close>

text \<open>
  A Standard Schema is its \<^verbatim>\<open>["~standard"].validate\<close> function. It returns a success
  with the typed value, a failure with its issues (\<^verbatim>\<open>result.issues\<close> is an array, and
  every array is truthy, also the empty one), or a \<^verbatim>\<open>Promise\<close>. A path item of an
  issue is a property key or a \<^verbatim>\<open>{key}\<close> segment; keys are kept as the text that
  \<^verbatim>\<open>join\<close> prints for them.
\<close>

datatype path_item = PropertyKey string | PathSegment string

record issue =
  message :: string
  path :: "path_item list option"

datatype 'a result = Success 'a | Failure "issue list" | Promise

type_synonym ('i, 'o) StandardSchemaV1 = "'i \<Rightarrow> 'o result"

definition path_item_key :: "path_item \<Rightarrow> string" where
  "path_item_key segment = (case segment of PathSegment k \<Rightarrow> k | PropertyKey k \<Rightarrow> k)"

definition issue_line :: "issue \<Rightarrow> string" where
  "issue_line i =
     (let pathStr =
        (case path i of
           None \<Rightarrow> ''(root)''
         | Some p \<Rightarrow> if length p > 0 then join ''.'' (map path_item_key p) else ''(root)'')
      in ''  - '' @ pathStr @ '': '' @ message i)"

definition formatStandardSchemaIssues :: "issue list \<Rightarrow> string option \<Rightarrow> string" where
  \<open>formatStandardSchemaIssues issues name =
     (let header =
        (case name of
           None \<Rightarrow> ''Validation failed''
         | Some n \<Rightarrow> if n \<noteq> [] then ''Validation failed: "'' @ n @ ''"'' else ''Validation failed'');
          errors = join ''\<newline>'' (map issue_line issues)
      in if errors \<noteq> [] then header @ ''\<newline>'' @ errors else header)\<close>

definition standardValidate ::
    "('i, 'o) StandardSchemaV1 \<Rightarrow> 'i \<Rightarrow> string option \<Rightarrow> error + 'o" where
  "standardValidate schema input name =
     (case schema input of
        Promise \<Rightarrow> Inl (Error ''Promise validation result is not supported'')
      | Failure issues \<Rightarrow> Inl (Error (formatStandardSchemaIssues issues name))
      | Success v \<Rightarrow> Inr v)"

text \<open>
  \<^verbatim>\<open>args.event\<close> is the object from event names to schemas: its entries in
  \<^verbatim>\<open>Object.keys\<close> order. \<^verbatim>\<open>parseEvent\<close> loops over \<^verbatim>\<open>Object.values\<close>; the empty
  \<^verbatim>\<open>catch\<close> swallows whatever \<^verbatim>\<open>standardValidate\<close> throws and the loop goes on.
\<close>

fun parseEvent_loop :: "('i, 'o) StandardSchemaV1 list \<Rightarrow> 'i \<Rightarrow> error + 'o" where
  "parseEvent_loop [] input = Inl (Error ''Validation failed'')"
| "parseEvent_loop (eventSchema # rest) input =
     (case standardValidate eventSchema input None of
        Inr v \<Rightarrow> Inr v
      | Inl _ \<Rightarrow> parseEvent_loop rest input)"

definition parseEvent :: "(string \<times> ('i, 'o) StandardSchemaV1) list \<Rightarrow> 'i \<Rightarrow> error + 'o" where
  "parseEvent args_event input = parseEvent_loop (map snd args_event) input"

text \<open>
  \<^verbatim>\<open>args.event[eventName]\<close> is a property read on a plain object: it finds the object's
  own property of that name and otherwise what \<^verbatim>\<open>Object.prototype\<close> defines under that
  name, a function or, for \<^verbatim>\<open>__proto__\<close>, the prototype itself; \<^verbatim>\<open>undefined\<close> is the
  answer for every other name only.
\<close>

definition objectPrototypeNames :: "string list" where
  "objectPrototypeNames =
     [''constructor'', ''__defineGetter__'', ''__defineSetter__'', ''hasOwnProperty'',
      ''__lookupGetter__'', ''__lookupSetter__'', ''isPrototypeOf'',
      ''propertyIsEnumerable'', ''toString'', ''valueOf'', ''__proto__'',
      ''toLocaleString'']"

datatype 'a property = Own 'a | Inherited | Undefined

definition lookup :: "(string \<times> 'a) list \<Rightarrow> string \<Rightarrow> 'a property" where
  "lookup obj k =
     (case map_of obj k of
        Some v \<Rightarrow> Own v
      | None \<Rightarrow> if k \<in> set objectPrototypeNames then Inherited else Undefined)"

text \<open>
  \<^verbatim>\<open>parseEventByName\<close> throws its own error when the value read is falsy, which of the
  three only \<^verbatim>\<open>undefined\<close> is. An inherited value goes to \<^verbatim>\<open>standardValidate\<close> as if
  it were a schema; it has no \<^verbatim>\<open>"~standard"\<close> property, and the read of \<^verbatim>\<open>validate\<close>
  on \<^verbatim>\<open>undefined\<close> throws a \<^verbatim>\<open>TypeError\<close> (with the engine's message, here V8's
  without its quotation marks).
\<close>

definition parseEventByName ::
    "(string \<times> ('i, 'o) StandardSchemaV1) list \<Rightarrow> string \<Rightarrow> 'i \<Rightarrow> error + 'o" where
  \<open>parseEventByName args_event name input =
     (case lookup args_event name of
        Undefined \<Rightarrow>
          (let availableEvents = join '', '' (map fst args_event)
           in Inl (Error (''Event name "'' @ name @ ''" not found. Available events: ''
                          @ availableEvents)))
      | Own eventSchema \<Rightarrow> standardValidate eventSchema input (Some name)
      | Inherited \<Rightarrow> Inl (TypeError ''Cannot read properties of undefined (reading validate)''))\<close>

definition parseState :: "('i, 's) StandardSchemaV1 \<Rightarrow> 'i \<Rightarrow> error + 's" where
  "parseState args_state input = standardValidate args_state input None"

section \<open>TypeBox validators as Standard Schemas (src/src/typeboxToStandardSchema.ts)\<close>

text \<open>
  \<^verbatim>\<open>"a/b".split("/")\<close>: the pieces between the separators, one more than there are
  separators, so the empty string splits into one empty piece.
\<close>

fun split :: "char \<Rightarrow> string \<Rightarrow> string list" where
  "split sep [] = [[]]"
| "split sep (c # cs) =
     (if c = sep then [] # split sep cs
      else (case split sep cs of [] \<Rightarrow> [[c]] | w # ws \<Rightarrow> (c # w) # ws))"

text \<open>
  \<^verbatim>\<open>s.replace(/ab/g, rep)\<close> for a pattern of two characters: matches are found from the
  left and do not overlap.
\<close>

fun replace2 :: "char \<Rightarrow> char \<Rightarrow> string \<Rightarrow> string \<Rightarrow> string" where
  "replace2 a b rep (x # y # zs) =
     (if x = a \<and> y = b then rep @ replace2 a b rep zs else x # replace2 a b rep (y # zs))"
| "replace2 a b rep xs = xs"

definition PathSegments :: "string \<Rightarrow> string list" where
  "PathSegments pointer =
     (if length pointer = 0 then []
      else map (\<lambda>segment. replace2 CHR ''~'' CHR ''0'' ''~'' (replace2 CHR ''~'' CHR ''1'' ''/'' segment))
             (split CHR ''/'' (drop 1 pointer)))"

text \<open>
  A TypeBox error carries more than these two fields; \<^verbatim>\<open>Issue\<close> reads only these.
  The issue it builds always has a path, of property keys.
\<close>

record TLocalizedValidationError =
  instancePath :: string
  errorMessage :: string

definition Issue :: "TLocalizedValidationError \<Rightarrow> issue" where
  "Issue err =
     \<lparr>message = errorMessage err,
      path = Some (map PropertyKey (PathSegments (instancePath err)))\<rparr>"

text \<open>
  The compiled \<^verbatim>\<open>Validator\<close> is TypeBox's: its \<^verbatim>\<open>Check\<close> and \<^verbatim>\<open>Errors\<close> are
  parameters.
\<close>

record 'v Validator =
  Check :: "'v \<Rightarrow> bool"
  Errors :: "'v \<Rightarrow> TLocalizedValidationError list"

definition validate :: "'v Validator \<Rightarrow> ('v, 'v) StandardSchemaV1" where
  "validate validator v =
     (if Check validator v then Success v
      else Failure (map Issue (Errors validator v)))"

text \<open>
  The JSON Pointer that \<^verbatim>\<open>PathSegments\<close> decodes: every segment escaped (\<open>~\<close> as
  \<open>~0\<close>, then \<open>/\<close> as \<open>~1\<close>) and prefixed with \<open>/\<close>.
\<close>

fun escape_segment :: "string \<Rightarrow> string" where
  "escape_segment [] = []"
| "escape_segment (c # cs) =
     (if c = CHR ''~'' then ''~0'' @ escape_segment cs
      else if c = CHR ''/'' then ''~1'' @ escape_segment cs
      else c # escape_segment cs)"

definition pointer_of :: "string list \<Rightarrow> string" where
  "pointer_of segments = concat (map (\<lambda>s. CHR ''/'' # escape_segment s) segments)"

section \<open>Dates\<close>

text \<open>
  A \<^verbatim>\<open>Date\<close> is its time value, the milliseconds since the epoch, or \<open>None\<close> for an
  Invalid Date. \<^verbatim>\<open>toISOString\<close> is fixed by the language: the proleptic Gregorian
  calendar in UTC, the year in four digits from 0 to 9999 and signed in six digits
  otherwise, a \<^verbatim>\<open>RangeError\<close> on an Invalid Date.
\<close>

type_synonym Date = "int option"

text \<open>
  A time value lies within 8.64e15 milliseconds of the epoch; \<^verbatim>\<open>new Date\<close> clips
  anything beyond to an Invalid Date.
\<close>

definition validDate :: "Date \<Rightarrow> bool" where
  "validDate date = (case date of None \<Rightarrow> False | Some t \<Rightarrow> \<bar>t\<bar> \<le> 8640000000000000)"

definition civil_from_days :: "int \<Rightarrow> int \<times> int \<times> int" where
  "civil_from_days days =
     (let z = days + 719468;
          era = z div 146097;
          doe = z mod 146097;
          yoe = (doe - doe div 1460 + doe div 36524 - doe div 146096) div 365;
          doy = doe - (365 * yoe + yoe div 4 - yoe div 100);
          mp = (5 * doy + 2) div 153;
          d = doy - (153 * mp + 2) div 5 + 1;
          m = (if mp < 10 then mp + 3 else mp - 9);
          y = yoe + era * 400 + (if m \<le> 2 then 1 else 0)
      in (y, m, d))"

definition days_from_civil :: "int \<Rightarrow> int \<Rightarrow> int \<Rightarrow> int" where
  "days_from_civil y m d =
     (let y' = (if m \<le> 2 then y - 1 else y);
          era = y' div 400;
          yoe = y' mod 400;
          doy = (153 * (if m > 2 then m - 3 else m + 9) + 2) div 5 + d - 1;
          doe = yoe * 365 + yoe div 4 - yoe div 100 + doy
      in era * 146097 + doe - 719468)"

definition digit_char :: "nat \<Rightarrow> char" where
  "digit_char n = ''0123456789'' ! (n mod 10)"

fun pad_digits :: "nat \<Rightarrow> nat \<Rightarrow> string" where
  "pad_digits 0 n = []"
| "pad_digits (Suc w) n = pad_digits w (n div 10) @ [digit_char n]"

definition toISOString :: "Date \<Rightarrow> error + string" where
  "toISOString date =
     (case date of
        None \<Rightarrow> Inl (RangeError ''Invalid time value'')
      | Some t \<Rightarrow>
          if \<not> validDate date then Inl (RangeError ''Invalid time value'')
          else
          (case civil_from_days (t div 86400000) of (y, m, d) \<Rightarrow>
             (let ms = t mod 86400000;
                  year = (if 0 \<le> y \<and> y \<le> 9999 then pad_digits 4 (nat y)
                          else (if y < 0 then ''-'' else ''+'') @ pad_digits 6 (nat \<bar>y\<bar>))
              in Inr (year @ ''-'' @ pad_digits 2 (nat m) @ ''-'' @ pad_digits 2 (nat d)
                      @ ''T'' @ pad_digits 2 (nat (ms div 3600000))
                      @ '':'' @ pad_digits 2 (nat (ms div 60000 mod 60))
                      @ '':'' @ pad_digits 2 (nat (ms div 1000 mod 60))
                      @ ''.'' @ pad_digits 3 (nat (ms mod 1000)) @ ''Z''))))"

text \<open>
  \<^verbatim>\<open>new Date(s)\<close> on the full date-time format \<^verbatim>\<open>YYYY-MM-DDTHH:mm:ss.sssZ\<close> with
  every field in its range (the day within its month, the hour up to 23): the time value.
  \<open>None\<close> says that \<open>s\<close> is not such a string. What \<^verbatim>\<open>new Date\<close> makes of any other
  string, also of one in this format with a field out of range (engines differ: some
  roll the 30th of February over to March, some answer an Invalid Date), is left to the
  engine, the parameter \<open>other\<close> of \<open>new_Date\<close>.
\<close>

fun position :: "char \<Rightarrow> string \<Rightarrow> nat option" where
  "position c [] = None"
| "position c (d # ds) = (if c = d then Some 0 else map_option Suc (position c ds))"

definition digit_val :: "char \<Rightarrow> nat option" where
  "digit_val c = position c ''0123456789''"

fun read_digits :: "nat \<Rightarrow> string \<Rightarrow> nat option" where
  "read_digits acc [] = Some acc"
| "read_digits acc (c # cs) =
     (case digit_val c of None \<Rightarrow> None | Some v \<Rightarrow> read_digits (10 * acc + v) cs)"

definition days_in_month :: "int \<Rightarrow> int \<Rightarrow> int" where
  "days_in_month y m =
     (if m = 2 then (if y mod 4 = 0 \<and> (y mod 100 \<noteq> 0 \<or> y mod 400 = 0) then 29 else 28)
      else if m = 4 \<or> m = 6 \<or> m = 9 \<or> m = 11 then 30 else 31)"

definition field :: "string \<Rightarrow> nat \<Rightarrow> nat \<Rightarrow> int option" where
  "field s i n = map_option int (read_digits 0 (take n (drop i s)))"

definition parse_date_time :: "string \<Rightarrow> Date option" where
  "parse_date_time s =
     (if length s = 24 \<and> s ! 4 = CHR ''-'' \<and> s ! 7 = CHR ''-'' \<and> s ! 10 = CHR ''T''
         \<and> s ! 13 = CHR '':'' \<and> s ! 16 = CHR '':'' \<and> s ! 19 = CHR ''.'' \<and> s ! 23 = CHR ''Z''
      then
        (case (field s 0 4, field s 5 2, field s 8 2, field s 11 2, field s 14 2,
               field s 17 2, field s 20 3) of
           (Some y, Some m, Some d, Some h, Some mi, Some sec, Some f) \<Rightarrow>
             (if 1 \<le> m \<and> m \<le> 12 \<and> 1 \<le> d \<and> d \<le> days_in_month y m \<and> h \<le> 23
                 \<and> mi \<le> 59 \<and> sec \<le> 59
              then Some (Some (days_from_civil y m d * 86400000 + h * 3600000
                               + mi * 60000 + sec * 1000 + f))
              else None)
         | _ \<Rightarrow> None)
      else None)"

definition new_Date :: "(string \<Rightarrow> Date) \<Rightarrow> string \<Rightarrow> Date" where
  "new_Date other s = (case parse_date_time s of Some date \<Rightarrow> date | None \<Rightarrow> other s)"

text \<open>An engine for which every other string is an Invalid Date.\<close>

definition no_other_format :: "string \<Rightarrow> Date" where
  "no_other_format s = None"

section \<open>The Prisma adapter (src/unnamed/part_000, \<^verbatim>\<open>prismaAdapter\<close>)\<close>

text \<open>
  The adapter is written against its \<^verbatim>\<open>options\<close>: the client's \<^verbatim>\<open>$transaction\<close>, the
  two table delegates and \<^verbatim>\<open>entityToRow\<close>. They are the fields of a record, over any
  database state \<open>'db\<close>. A delegate's write (\<^verbatim>\<open>createMany\<close>, \<^verbatim>\<open>upsert\<close>) returns a
  Prisma promise: a description of the write, of type \<open>'cmd\<close>, that runs when the
  transaction it is handed to runs. \<^verbatim>\<open>findMany\<close> takes the two fields of its
  \<^verbatim>\<open>where\<close>. A row may have more columns than the six of \<^verbatim>\<open>BaseEventTypeRow\<close>.
\<close>

type_synonym 'm row = "(Date, 'm) base_event_scheme"

record ('db, 'cmd, 'm, 'srow, 'state) VentydAdapterOptions =
  transaction :: "'cmd list \<Rightarrow> 'db \<Rightarrow> (error + unit) \<times> 'db"
  findMany :: "string \<Rightarrow> string \<Rightarrow> 'db \<Rightarrow> error + 'm row list"
  createMany :: "unit row list \<Rightarrow> 'cmd"
  upsert :: "string \<Rightarrow> 'srow \<Rightarrow> 'srow \<Rightarrow> 'cmd"
  entityToRow :: "string \<Rightarrow> 'state \<Rightarrow> 'srow"

definition eventToRow :: "(string \<Rightarrow> Date) \<Rightarrow> event \<Rightarrow> unit row" where
  "eventToRow other event =
     \<lparr>eventId = eventId event,
      eventName = eventName event,
      eventCreatedAt = new_Date other (eventCreatedAt event),
      entityName = entityName event,
      entityId = entityId event,
      body = body event\<rparr>"

definition rowToEvent :: "'m row \<Rightarrow> error + event" where
  "rowToEvent row =
     bindE (toISOString (eventCreatedAt row)) (\<lambda>iso.
       Inr \<lparr>eventId = eventId row,
            eventName = eventName row,
            eventCreatedAt = iso,
            entityName = entityName row,
            entityId = entityId row,
            body = body row\<rparr>)"

definition getEventsByEntityId ::
    "('db, 'cmd, 'm, 'srow, 'state) VentydAdapterOptions \<Rightarrow> string \<Rightarrow> string \<Rightarrow> 'db
     \<Rightarrow> error + event list" where
  "getEventsByEntityId options name ident db =
     bindE (findMany options name ident db) (\<lambda>rows. mapE rowToEvent rows)"

definition commitEvents ::
    "(string \<Rightarrow> Date) \<Rightarrow> ('db, 'cmd, 'm, 'srow, 'state) VentydAdapterOptions
     \<Rightarrow> event list \<Rightarrow> string \<Rightarrow> 'state \<Rightarrow> 'db \<Rightarrow> (error + unit) \<times> 'db" where
  "commitEvents other options events ident st db =
     (let snapshotRow = entityToRow options ident st
      in transaction options
           [createMany options (map (eventToRow other) events),
            upsert options ident snapshotRow snapshotRow]
           db)"

subsection \<open>A database behind the client\<close>

text \<open>
  Prisma documents \<^verbatim>\<open>$transaction([...])\<close> as all or nothing: the writes run in order,
  and when one fails none of them takes effect. \<open>atomic_transaction\<close> is that contract
  over any way \<open>run\<close> of running one write.
\<close>

fun run_all :: "('cmd \<Rightarrow> 'db \<Rightarrow> error + 'db) \<Rightarrow> 'cmd list \<Rightarrow> 'db \<Rightarrow> error + 'db" where
  "run_all run [] db = Inr db"
| "run_all run (c # cs) db =
     (case run c db of Inl e \<Rightarrow> Inl e | Inr db' \<Rightarrow> run_all run cs db')"

definition atomic_transaction ::
    "('cmd \<Rightarrow> 'db \<Rightarrow> error + 'db) \<Rightarrow> 'cmd list \<Rightarrow> 'db \<Rightarrow> (error + unit) \<times> 'db" where
  "atomic_transaction run cmds db =
     (case run_all run cmds db of Inl e \<Rightarrow> (Inl e, db) | Inr db' \<Rightarrow> (Inr (), db'))"

text \<open>
  A database of two tables, to run the adapter on: the event rows in the order they
  were inserted, with \<^verbatim>\<open>eventId\<close> unique and \<^verbatim>\<open>eventCreatedAt\<close> a valid date, and the
  snapshots by id, with a constraint \<open>accepted\<close> on the rows of the table. Either write
  can fail.
\<close>

record 'srow prisma_db =
  eventTable :: "unit row list"
  snapshotTable :: "(string \<times> 'srow) list"

datatype 'srow prisma_command =
    CreateMany "unit row list"
  | Upsert string 'srow 'srow

definition run_command ::
    "('srow \<Rightarrow> bool) \<Rightarrow> 'srow prisma_command \<Rightarrow> 'srow prisma_db \<Rightarrow> error + 'srow prisma_db" where
  "run_command accepted cmd db =
     (case cmd of
        CreateMany rows \<Rightarrow>
          (if list_ex (\<lambda>r. \<not> validDate (eventCreatedAt r)) rows
           then Inl (Error ''Invalid value for eventCreatedAt'')
           else if \<not> distinct (map eventId (eventTable db @ rows))
           then Inl (Error ''Unique constraint failed on eventId'')
           else Inr (db\<lparr>eventTable := eventTable db @ rows\<rparr>))
      | Upsert ident update create \<Rightarrow>
          (let written = (if map_of (snapshotTable db) ident = None then create else update)
           in if \<not> accepted written
              then Inl (Error ''Null constraint violation on the snapshot'')
              else Inr (db\<lparr>snapshotTable := AList.update ident written (snapshotTable db)\<rparr>)))"

definition storedRows :: "string \<Rightarrow> string \<Rightarrow> 'srow prisma_db \<Rightarrow> unit row list" where
  "storedRows name ident db =
     filter (\<lambda>r. entityName r = name \<and> entityId r = ident) (eventTable db)"

definition findMany_inserted :: "string \<Rightarrow> string \<Rightarrow> 'srow prisma_db \<Rightarrow> error + unit row list" where
  "findMany_inserted name ident db = Inr (storedRows name ident db)"

definition findMany_newest_first :: "string \<Rightarrow> string \<Rightarrow> 'srow prisma_db \<Rightarrow> error + unit row list" where
  "findMany_newest_first name ident db = Inr (rev (storedRows name ident db))"

definition snapshotOf :: "string \<Rightarrow> jsobject \<Rightarrow> string \<times> jsobject" where
  "snapshotOf ident st = (ident, st)"

text \<open>The snapshot table of the articles has a title column that is not null.\<close>

definition titled :: "string \<times> jsobject \<Rightarrow> bool" where
  "titled snapshot = (case map_of (snd snapshot) ''title'' of Some (JStr t) \<Rightarrow> True | _ \<Rightarrow> False)"

text \<open>
  Two clients of this database. Both run \<^verbatim>\<open>$transaction\<close> atomically; the first answers
  \<^verbatim>\<open>findMany\<close> in insertion order, the second newest row first, as a database does
  that answers the query from an index in descending order of \<^verbatim>\<open>eventCreatedAt\<close>. A
  query with no \<^verbatim>\<open>orderBy\<close> leaves the order to the database, so both are Prisma
  clients.
\<close>

definition insertionOrderClient ::
    "((string \<times> jsobject) prisma_db, (string \<times> jsobject) prisma_command, unit,
      string \<times> jsobject, jsobject) VentydAdapterOptions" where
  "insertionOrderClient =
     \<lparr>transaction = atomic_transaction (run_command titled),
      findMany = findMany_inserted,
      createMany = CreateMany,
      upsert = Upsert,
      entityToRow = snapshotOf\<rparr>"

definition newestFirstClient ::
    "((string \<times> jsobject) prisma_db, (string \<times> jsobject) prisma_command, unit,
      string \<times> jsobject, jsobject) VentydAdapterOptions" where
  "newestFirstClient =
     \<lparr>transaction = atomic_transaction (run_command titled),
      findMany = findMany_newest_first,
      createMany = CreateMany,
      upsert = Upsert,
      entityToRow = snapshotOf\<rparr>"

definition emptyDb :: "(string \<times> jsobject) prisma_db" where
  "emptyDb = \<lparr>eventTable = [], snapshotTable = []\<rparr>"



section \<open>The entity, the mutation wrapper and the repository\<close>

text \<open>
  The article class is built from \<^verbatim>\<open>Entity\<close>, \<^verbatim>\<open>mutation\<close>, \<^verbatim>\<open>defineSchema\<close> and
  the \<^verbatim>\<open>typebox\<close> provider, and its tests from \<^verbatim>\<open>createRepository\<close>. Of these the
  files embedded here hold the type declarations, the callers and the tests; their
  bodies are modelled from the specification, sections 3 and 4. What the runtime draws
  from its surroundings (a fresh identifier, the clock) is an argument.
\<close>

text \<open>
  Modelled from the spec: the schema object that \<^verbatim>\<open>defineSchema\<close> returns (its body is
  not among the sources): the entity name, the initial event name and the provider's
  \<^verbatim>\<open>parseEventByName\<close>.
\<close>

record Schema =
  schema_entityName :: string
  initialEventName :: string
  schema_parseEventByName :: "string \<Rightarrow> event \<Rightarrow> error + event"

text \<open>
  Modelled from the spec: the fields of an entity instance (section 3; the interface
  \<^verbatim>\<open>Entity\<close> declares them, the class body is not among the sources): identity, the state
  derived so far (\<open>None\<close> before the first event), the pending events and the
  \<^verbatim>\<open>$$readonly\<close> flag.
\<close>

record Entity =
  entity_id :: string
  state :: "jsobject option"
  queuedEvents :: "event list"
  readonly :: bool

text \<open>
  Modelled from the spec: what the ambient calls return when an operation runs: a fresh
  unique identifier for the entity and for the event, and the entity's time source
  \<^verbatim>\<open>now()\<close> as an ISO string.
\<close>

record ambient =
  freshEntityId :: string
  freshEventId :: string
  now :: string

text \<open>Modelled from the spec: the \<^verbatim>\<open>options\<close> of \<^verbatim>\<open>dispatch\<close>, both optional (4.2, step 2).\<close>

record dispatch_options =
  opt_eventId :: "string option"
  opt_eventCreatedAt :: "string option"

text \<open>
  Modelled from the spec: the \<^verbatim>\<open>state\<close> accessor (4.2), which fails with an
  \<^verbatim>\<open>UninitializedError\<close> before any event has been applied.
\<close>

definition get_state :: "Entity \<Rightarrow> error + jsobject" where
  "get_state e = (case state e of None \<Rightarrow> Inl UninitializedError | Some s \<Rightarrow> Inr s)"

text \<open>
  Modelled from the spec: \<^verbatim>\<open>createEvent\<close> (4.2), the construction of the event envelope:
  the identifier and the timestamp from the options or else from the surroundings, the
  names from the entity, the body as given.
\<close>

definition createEvent ::
    "Schema \<Rightarrow> ambient \<Rightarrow> Entity \<Rightarrow> string \<Rightarrow> jsval \<Rightarrow> dispatch_options \<Rightarrow> event" where
  "createEvent schema amb e name b opts =
     \<lparr>eventId = (case opt_eventId opts of Some i \<Rightarrow> i | None \<Rightarrow> freshEventId amb),
      eventName = name,
      eventCreatedAt = (case opt_eventCreatedAt opts of Some t \<Rightarrow> t | None \<Rightarrow> now amb),
      entityName = schema_entityName schema,
      entityId = entity_id e,
      body = b\<rparr>"

text \<open>
  Modelled from the spec: \<^verbatim>\<open>dispatch\<close> (4.2, steps 1 to 5): refuse a readonly entity,
  build the event, validate it by name, reduce it into the state, append it to the
  pending events. A failure at any step leaves the entity as it was. Listeners observe
  and change nothing of the entity; they are left out.
\<close>

definition dispatch ::
    "Schema \<Rightarrow> (jsobject option \<Rightarrow> event \<Rightarrow> error + jsobject option) \<Rightarrow> ambient
     \<Rightarrow> dispatch_options \<Rightarrow> string \<Rightarrow> jsval \<Rightarrow> Entity \<Rightarrow> (error + unit) \<times> Entity" where
  "dispatch schema reducer amb opts name b e =
     (if readonly e then (Inl ReadonlyEntityError, e)
      else
        (case schema_parseEventByName schema name (createEvent schema amb e name b opts) of
           Inl err \<Rightarrow> (Inl err, e)
         | Inr ev \<Rightarrow>
             (case reducer (state e) ev of
                Inl err \<Rightarrow> (Inl err, e)
              | Inr s \<Rightarrow> (Inr (), e\<lparr>state := s, queuedEvents := queuedEvents e @ [ev]\<rparr>))))"



text \<open>
  Modelled from the spec: \<^verbatim>\<open>Entity.load\<close> (section 3, lifecycles load): the state as
  given, nothing pending, readonly unless \<^verbatim>\<open>UNSAFE_mutable\<close> is set.
\<close>

definition Entity_load :: "string \<Rightarrow> jsobject \<Rightarrow> bool \<Rightarrow> Entity" where
  "Entity_load ident st UNSAFE_mutable =
     \<lparr>entity_id = ident, state = Some st, queuedEvents = [], readonly = (\<not> UNSAFE_mutable)\<rparr>"




text \<open>
  Modelled from the spec: the \<^verbatim>\<open>mutation\<close> wrapper (4.3): it rejects a readonly entity
  before the wrapped function runs, and otherwise runs it with the entity's dispatch
  handle; what the wrapped function throws propagates.
\<close>

definition mutation ::
    "'d \<Rightarrow> ('d \<Rightarrow> Entity \<Rightarrow> (error + unit) \<times> Entity) \<Rightarrow> Entity \<Rightarrow> (error + unit) \<times> Entity" where
  "mutation dispatch_handle fn e =
     (if readonly e then (Inl ReadonlyEntityError, e) else fn dispatch_handle e)"



section \<open>The article entity (src/src/index.ts, \<^verbatim>\<open>articleSchema\<close> and \<^verbatim>\<open>Article\<close>)\<close>

subsection \<open>Its schema\<close>

text \<open>
  The \<^verbatim>\<open>Type.*\<close> definitions of the event bodies, read as checks: an object with the
  required properties of the given types; an optional property may be absent or
  \<^verbatim>\<open>undefined\<close>; further properties are allowed.
\<close>

definition isString :: "jsval \<Rightarrow> bool" where
  "isString v = (case v of JStr _ \<Rightarrow> True | _ \<Rightarrow> False)"

definition stringLength :: "nat \<Rightarrow> nat option \<Rightarrow> jsval \<Rightarrow> bool" where
  "stringLength minLength maxLength v =
     (case v of
        JStr s \<Rightarrow> minLength \<le> length s \<and> (case maxLength of None \<Rightarrow> True | Some n \<Rightarrow> length s \<le> n)
      | _ \<Rightarrow> False)"

definition stringArray :: "jsval \<Rightarrow> bool" where
  "stringArray v = (case v of JArr xs \<Rightarrow> list_all isString xs | _ \<Rightarrow> False)"

definition required :: "jsobject \<Rightarrow> string \<Rightarrow> (jsval \<Rightarrow> bool) \<Rightarrow> bool" where
  "required ps k P = (case map_of ps k of None \<Rightarrow> False | Some v \<Rightarrow> P v)"

definition optional :: "jsobject \<Rightarrow> string \<Rightarrow> (jsval \<Rightarrow> bool) \<Rightarrow> bool" where
  "optional ps k P = (case map_of ps k of None \<Rightarrow> True | Some v \<Rightarrow> v = JUndefined \<or> P v)"

definition object_with :: "(jsobject \<Rightarrow> bool) \<Rightarrow> jsval \<Rightarrow> bool" where
  "object_with P v = (case v of JObj ps \<Rightarrow> P ps | _ \<Rightarrow> False)"

definition created_body :: "jsval \<Rightarrow> bool" where
  "created_body =
     object_with (\<lambda>ps. required ps ''title'' (stringLength 1 (Some 200))
                      \<and> required ps ''content'' (stringLength 1 None)
                      \<and> required ps ''author'' isString
                      \<and> required ps ''tags'' stringArray)"

definition title_updated_body :: "jsval \<Rightarrow> bool" where
  "title_updated_body = object_with (\<lambda>ps. required ps ''title'' (stringLength 1 (Some 200)))"

definition content_updated_body :: "jsval \<Rightarrow> bool" where
  "content_updated_body = object_with (\<lambda>ps. required ps ''content'' (stringLength 1 None))"

definition tags_updated_body :: "jsval \<Rightarrow> bool" where
  "tags_updated_body = object_with (\<lambda>ps. required ps ''tags'' stringArray)"

definition published_body :: "jsval \<Rightarrow> bool" where
  "published_body = object_with (\<lambda>ps. required ps ''publishedAt'' isString)"

definition unpublished_body :: "jsval \<Rightarrow> bool" where
  "unpublished_body = object_with (\<lambda>ps. optional ps ''reason'' isString)"

definition archived_body :: "jsval \<Rightarrow> bool" where
  "archived_body = object_with (\<lambda>ps. required ps ''reason'' isString)"

definition unarchived_body :: "jsval \<Rightarrow> bool" where
  "unarchived_body = object_with (\<lambda>ps. True)"

definition articleEvents :: "(string \<times> (jsval \<Rightarrow> bool)) list" where
  "articleEvents =
     [(''created'', created_body),
      (''title_updated'', title_updated_body),
      (''content_updated'', content_updated_body),
      (''tags_updated'', tags_updated_body),
      (''published'', published_body),
      (''unpublished'', unpublished_body),
      (''archived'', archived_body),
      (''unarchived'', unarchived_body)]"

text \<open>
  Modelled from the spec: the \<^verbatim>\<open>typebox\<close> provider (its file is not among the sources),
  on the pattern of its sibling \<^verbatim>\<open>arktype\<close>: every event key is namespaced with the
  entity name and \<open>:\<close>, its body schema is wrapped into the schema of the whole event
  (the envelope's four strings, the literal event name, the body), and the event map goes
  to the Standard Schema provider. The errors that TypeBox reports for a rejected event
  are the parameter \<open>errs\<close>.
\<close>

definition typebox ::
    "(string \<times> (jsval \<Rightarrow> bool)) list \<Rightarrow> (event \<Rightarrow> TLocalizedValidationError list) \<Rightarrow> string
     \<Rightarrow> (string \<times> (event, event) StandardSchemaV1) list" where
  "typebox bodies errs name =
     map (\<lambda>(key, bodyCheck).
            (name @ '':'' @ key,
             validate \<lparr>Check = (\<lambda>ev. eventName ev = name @ '':'' @ key \<and> bodyCheck (body ev)),
                       Errors = errs\<rparr>))
         bodies"

text \<open>
  Modelled from the spec: \<^verbatim>\<open>defineSchema("article", {schema, initialEventName})\<close>, which
  binds the entity name, the provider and the initial event name.
\<close>

definition articleSchema :: "(event \<Rightarrow> TLocalizedValidationError list) \<Rightarrow> Schema" where
  "articleSchema errs =
     \<lparr>schema_entityName = ''article'',
      initialEventName = ''article:created'',
      schema_parseEventByName = parseEventByName (typebox articleEvents errs ''article'')\<rparr>"

subsection \<open>Its getters and business methods\<close>

text \<open>
  \<^verbatim>\<open>this.state.k\<close>: the accessor, then the own property. The dispatch handle that a
  business method receives takes the event name and the body.
\<close>

type_synonym dispatch_handle = "string \<Rightarrow> jsval \<Rightarrow> Entity \<Rightarrow> (error + unit) \<times> Entity"

definition stateProp :: "Entity \<Rightarrow> string \<Rightarrow> error + jsval" where
  "stateProp e k =
     bindE (get_state e) (\<lambda>s. Inr (case map_of s k of None \<Rightarrow> JUndefined | Some v \<Rightarrow> v))"

definition canEdit :: "Entity \<Rightarrow> error + bool" where
  "canEdit e = bindE (stateProp e ''isArchived'') (\<lambda>a. Inr (\<not> truthy a))"

definition canPublish :: "Entity \<Rightarrow> error + bool" where
  "canPublish e =
     bindE (stateProp e ''isPublished'') (\<lambda>p.
       if \<not> truthy p then bindE (stateProp e ''isArchived'') (\<lambda>a. Inr (\<not> truthy a))
       else Inr False)"

text \<open>\<^verbatim>\<open>canUnpublish\<close> is read under \<^verbatim>\<open>!\<close> only: its truthiness.\<close>

definition canUnpublish :: "Entity \<Rightarrow> error + bool" where
  "canUnpublish e =
     bindE (stateProp e ''isPublished'') (\<lambda>p.
       if truthy p then bindE (stateProp e ''isArchived'') (\<lambda>a. Inr (\<not> truthy a))
       else Inr False)"

definition updateTitle_fn :: "dispatch_handle \<Rightarrow> string \<Rightarrow> Entity \<Rightarrow> (error + unit) \<times> Entity" where
  "updateTitle_fn d title e =
     (case canEdit e of
        Inl err \<Rightarrow> (Inl err, e)
      | Inr ok \<Rightarrow>
          if \<not> ok then (Inl (Error ''Cannot update title of archived article''), e)
          else if length title = 0 then (Inl (Error ''Title cannot be empty''), e)
          else if length title > 200 then (Inl (Error ''Title cannot exceed 200 characters''), e)
          else d ''article:title_updated'' (JObj [(''title'', JStr title)]) e)"

definition updateContent_fn :: "dispatch_handle \<Rightarrow> string \<Rightarrow> Entity \<Rightarrow> (error + unit) \<times> Entity" where
  "updateContent_fn d content e =
     (case canEdit e of
        Inl err \<Rightarrow> (Inl err, e)
      | Inr ok \<Rightarrow>
          if \<not> ok then (Inl (Error ''Cannot update content of archived article''), e)
          else if length content = 0 then (Inl (Error ''Content cannot be empty''), e)
          else d ''article:content_updated'' (JObj [(''content'', JStr content)]) e)"

definition updateTags_fn :: "dispatch_handle \<Rightarrow> string list \<Rightarrow> Entity \<Rightarrow> (error + unit) \<times> Entity" where
  "updateTags_fn d tags e =
     (case canEdit e of
        Inl err \<Rightarrow> (Inl err, e)
      | Inr ok \<Rightarrow>
          if \<not> ok then (Inl (Error ''Cannot update tags of archived article''), e)
          else d ''article:tags_updated'' (JObj [(''tags'', JArr (map JStr tags))]) e)"

text \<open>\<open>today\<close> is what \<^verbatim>\<open>new Date().toISOString()\<close> returns when \<^verbatim>\<open>publish\<close> runs.\<close>

definition publish_fn :: "dispatch_handle \<Rightarrow> string \<Rightarrow> Entity \<Rightarrow> (error + unit) \<times> Entity" where
  "publish_fn d today e =
     (case canPublish e of
        Inl err \<Rightarrow> (Inl err, e)
      | Inr ok \<Rightarrow>
          if \<not> ok then
            (case stateProp e ''isArchived'' of
               Inl err \<Rightarrow> (Inl err, e)
             | Inr a \<Rightarrow>
                 if truthy a then (Inl (Error ''Cannot publish archived article''), e)
                 else (Inl (Error ''Article is already published''), e))
          else d ''article:published'' (JObj [(''publishedAt'', JStr today)]) e)"

definition unpublish_fn :: "dispatch_handle \<Rightarrow> string option \<Rightarrow> Entity \<Rightarrow> (error + unit) \<times> Entity" where
  "unpublish_fn d reason e =
     (case canUnpublish e of
        Inl err \<Rightarrow> (Inl err, e)
      | Inr ok \<Rightarrow>
          if \<not> ok then
            (case stateProp e ''isArchived'' of
               Inl err \<Rightarrow> (Inl err, e)
             | Inr a \<Rightarrow>
                 if truthy a then (Inl (Error ''Cannot unpublish archived article''), e)
                 else (Inl (Error ''Article is not published''), e))
          else d ''article:unpublished''
                 (JObj [(''reason'', (case reason of None \<Rightarrow> JUndefined | Some r \<Rightarrow> JStr r))]) e)"

definition archive_fn :: "dispatch_handle \<Rightarrow> string \<Rightarrow> Entity \<Rightarrow> (error + unit) \<times> Entity" where
  "archive_fn d reason e =
     (case stateProp e ''isArchived'' of
        Inl err \<Rightarrow> (Inl err, e)
      | Inr a \<Rightarrow>
          if truthy a then (Inl (Error ''Article is already archived''), e)
          else d ''article:archived'' (JObj [(''reason'', JStr reason)]) e)"

definition unarchive_fn :: "dispatch_handle \<Rightarrow> Entity \<Rightarrow> (error + unit) \<times> Entity" where
  "unarchive_fn d e =
     (case stateProp e ''isArchived'' of
        Inl err \<Rightarrow> (Inl err, e)
      | Inr a \<Rightarrow>
          if \<not> truthy a then (Inl (Error ''Article is not archived''), e)
          else d ''article:unarchived'' (JObj []) e)"

text \<open>The methods of the class: each business function under the \<^verbatim>\<open>mutation\<close> wrapper.\<close>

definition updateTitle :: "dispatch_handle \<Rightarrow> string \<Rightarrow> Entity \<Rightarrow> (error + unit) \<times> Entity" where
  "updateTitle d title = mutation d (\<lambda>h. updateTitle_fn h title)"

definition updateContent :: "dispatch_handle \<Rightarrow> string \<Rightarrow> Entity \<Rightarrow> (error + unit) \<times> Entity" where
  "updateContent d content = mutation d (\<lambda>h. updateContent_fn h content)"

definition updateTags :: "dispatch_handle \<Rightarrow> string list \<Rightarrow> Entity \<Rightarrow> (error + unit) \<times> Entity" where
  "updateTags d tags = mutation d (\<lambda>h. updateTags_fn h tags)"

definition publish :: "dispatch_handle \<Rightarrow> string \<Rightarrow> Entity \<Rightarrow> (error + unit) \<times> Entity" where
  "publish d today = mutation d (\<lambda>h. publish_fn h today)"

definition unpublish :: "dispatch_handle \<Rightarrow> string option \<Rightarrow> Entity \<Rightarrow> (error + unit) \<times> Entity" where
  "unpublish d reason = mutation d (\<lambda>h. unpublish_fn h reason)"

definition archive :: "dispatch_handle \<Rightarrow> string \<Rightarrow> Entity \<Rightarrow> (error + unit) \<times> Entity" where
  "archive d reason = mutation d (\<lambda>h. archive_fn h reason)"

definition unarchive :: "dispatch_handle \<Rightarrow> Entity \<Rightarrow> (error + unit) \<times> Entity" where
  "unarchive d = mutation d unarchive_fn"

text \<open>
  The handle of an article: the entity's \<^verbatim>\<open>dispatch\<close> with the article's schema and
  reducer, called without options.
\<close>

definition article_dispatch ::
    "(event \<Rightarrow> TLocalizedValidationError list) \<Rightarrow> ambient \<Rightarrow> dispatch_handle" where
  "article_dispatch errs amb =
     dispatch (articleSchema errs) articleReducer amb \<lparr>opt_eventId = None, opt_eventCreatedAt = None\<rparr>"

section \<open>Concrete inputs\<close>

text \<open>The inputs at which the theorems below are run.\<close>

definition initialBody :: jsval where
  "initialBody =
     JObj [(''title'', JStr ''T''), (''content'', JStr ''C''), (''author'', JStr ''A''),
           (''tags'', JArr [])]"

definition createdEvent :: event where
  "createdEvent =
     \<lparr>eventId = ''evt-1'', eventName = ''article:created'',
      eventCreatedAt = ''2024-01-15T10:30:00.000Z'',
      entityName = ''article'', entityId = ''article-1'', body = initialBody\<rparr>"

definition titleUpdatedEvent :: event where
  "titleUpdatedEvent =
     \<lparr>eventId = ''evt-2'', eventName = ''article:title_updated'',
      eventCreatedAt = ''2024-01-15T10:31:00.000Z'',
      entityName = ''article'', entityId = ''article-1'',
      body = JObj [(''title'', JStr ''T2'')]\<rparr>"

definition pinnedEvent :: event where
  "pinnedEvent =
     \<lparr>eventId = ''evt-3'', eventName = ''article:pinned'',
      eventCreatedAt = ''2024-01-15T10:32:00.000Z'',
      entityName = ''article'', entityId = ''article-1'', body = JNull\<rparr>"

definition articleAfterUpdate :: jsobject where
  "articleAfterUpdate =
     [(''title'', JStr ''T2''), (''content'', JStr ''C''), (''author'', JStr ''A''),
      (''tags'', JArr []), (''isPublished'', JBool False), (''publishedAt'', JUndefined),
      (''isArchived'', JBool False), (''archivedReason'', JUndefined),
      (''archivedAt'', JUndefined)]"


definition archivedState :: jsobject where
  "archivedState =
     [(''title'', JStr ''T''), (''content'', JStr ''C''), (''author'', JStr ''A''),
      (''tags'', JArr []), (''isPublished'', JBool True),
      (''publishedAt'', JStr ''2024-01-15T10:31:00.000Z''),
      (''isArchived'', JBool True), (''archivedReason'', JStr ''Archived''),
      (''archivedAt'', JStr ''2024-01-15T10:32:00.000Z'')]"


definition atUpdate :: ambient where
  "atUpdate =
     \<lparr>freshEntityId = ''article-2'', freshEventId = ''evt-2'',
      now = ''2024-01-15T10:31:00.000Z''\<rparr>"

definition noErrors :: "event \<Rightarrow> TLocalizedValidationError list" where
  "noErrors ev = []"


text \<open>The database after the two events of the scenario were committed.\<close>

definition twoEventsDb :: "(string \<times> jsobject) prisma_db" where
  "twoEventsDb =
     \<lparr>eventTable =
        [eventToRow no_other_format createdEvent, eventToRow no_other_format titleUpdatedEvent],
      snapshotTable = [(''article-1'', snapshotOf ''article-1'' articleAfterUpdate)]\<rparr>"

text \<open>Three schemas over raw values: of strings, of booleans, and an asynchronous one.\<close>

definition stringSchema :: "(jsval, jsval) StandardSchemaV1" where
  "stringSchema input =
     (case input of
        JStr s \<Rightarrow> Success input
      | _ \<Rightarrow> Failure [\<lparr>message = ''Expected string'', path = Some [PropertyKey ''body'']\<rparr>])"

definition boolSchema :: "(jsval, jsval) StandardSchemaV1" where
  "boolSchema input =
     (case input of
        JBool b \<Rightarrow> Success input
      | _ \<Rightarrow> Failure [\<lparr>message = ''Expected boolean'', path = None\<rparr>])"

definition asyncSchema :: "(jsval, jsval) StandardSchemaV1" where
  "asyncSchema input = Promise"

definition userEvents :: "(string \<times> (jsval, jsval) StandardSchemaV1) list" where
  "userEvents = [(''user:created'', stringSchema), (''user:deleted'', boolSchema)]"

text \<open>Whether a schema accepts an input synchronously.\<close>

definition succeeds :: "('i, 'o) StandardSchemaV1 \<Rightarrow> 'i \<Rightarrow> bool" where
  "succeeds schema input = (case schema input of Success v \<Rightarrow> True | _ \<Rightarrow> False)"

text \<open>A validator of strings that reports two errors for anything else.\<close>

definition twoErrors :: "jsval \<Rightarrow> TLocalizedValidationError list" where
  "twoErrors v =
     [\<lparr>instancePath = ''/body/a~1b/~01'', errorMessage = ''must be string''\<rparr>,
      \<lparr>instancePath = [], errorMessage = ''must be object''\<rparr>]"

definition stringValidator :: "jsval Validator" where
  "stringValidator = \<lparr>Check = isString, Errors = twoErrors\<rparr>"




text \<open>The first half of the pointer's escaping: \<open>~\<close> as \<open>~0\<close>, the slashes as they are.\<close>

fun escape_tilde :: "string \<Rightarrow> string" where
  "escape_tilde [] = []"
| "escape_tilde (c # cs) = (if c = CHR ''~'' then ''~0'' @ escape_tilde cs else c # escape_tilde cs)"

text \<open>
  The state after the creation alone, a state with no title, and the database with a
  third row, of the event \<open>pinnedEvent\<close>.
\<close>

definition articleAfterCreate :: jsobject where
  "articleAfterCreate =
     [(''title'', JStr ''T''), (''content'', JStr ''C''), (''author'', JStr ''A''),
      (''tags'', JArr []), (''isPublished'', JBool False), (''publishedAt'', JUndefined),
      (''isArchived'', JBool False), (''archivedReason'', JUndefined),
      (''archivedAt'', JUndefined)]"

definition contentOnlyState :: jsobject where
  "contentOnlyState = [(''content'', JStr ''C2'')]"

definition threeRowsDb :: "(string \<times> jsobject) prisma_db" where
  "threeRowsDb =
     \<lparr>eventTable =
        [eventToRow no_other_format createdEvent, eventToRow no_other_format titleUpdatedEvent,
         eventToRow no_other_format pinnedEvent],
      snapshotTable = [(''article-1'', snapshotOf ''article-1'' articleAfterUpdate)]\<rparr>"

section \<open>Timestamps of the concrete inputs\<close>

lemma parse_created_at: "new_Date other ''2024-01-15T10:30:00.000Z'' = Some 1705314600000"
proof -
  have "parse_date_time ''2024-01-15T10:30:00.000Z'' = Some (Some 1705314600000)"
    by code_simp
  then show ?thesis by (simp add: new_Date_def)
qed

lemma parse_updated_at: "new_Date other ''2024-01-15T10:31:00.000Z'' = Some 1705314660000"
proof -
  have "parse_date_time ''2024-01-15T10:31:00.000Z'' = Some (Some 1705314660000)"
    by code_simp
  then show ?thesis by (simp add: new_Date_def)
qed

lemma parse_pinned_at: "new_Date other ''2024-01-15T10:32:00.000Z'' = Some 1705314720000"
proof -
  have "parse_date_time ''2024-01-15T10:32:00.000Z'' = Some (Some 1705314720000)"
    by code_simp
  then show ?thesis by (simp add: new_Date_def)
qed

lemma valid_pinned_at: "validDate (Some 1705314720000)"
  by (simp add: validDate_def)

lemma valid_created_at: "validDate (Some 1705314600000)"
  by (simp add: validDate_def)

lemma valid_updated_at: "validDate (Some 1705314660000)"
  by (simp add: validDate_def)

lemma iso_created_at: "toISOString (Some 1705314600000) = Inr ''2024-01-15T10:30:00.000Z''"
  by code_simp

lemma iso_updated_at: "toISOString (Some 1705314660000) = Inr ''2024-01-15T10:31:00.000Z''"
  by code_simp

section \<open>The reducer ignores the events it does not know\<close>

text \<open>
  C2. For every state and every event whose name is none of the eight names of the
  reducer's \<^verbatim>\<open>switch\<close>, the article reducer returns the previous state unchanged and
  does not fail, whatever the body of the event is, and also from the undefined seed.
\<close>

theorem articleReducer_unknown_event:
  "eventName e \<notin> set articleEventNames \<Longrightarrow> articleReducer s e = Inr s"
  by (simp add: articleReducer_def articleEventNames_def)

theorem articleReducer_unknown_event_witness:
  "eventName pinnedEvent \<notin> set articleEventNames
   \<and> articleReducer (Some articleAfterUpdate) pinnedEvent = Inr (Some articleAfterUpdate)
   \<and> articleReducer None pinnedEvent = Inr None"
proof -
  have h: "eventName pinnedEvent \<notin> set articleEventNames"
    by (simp add: pinnedEvent_def articleEventNames_def)
  show ?thesis
    using h articleReducer_unknown_event [OF h, of "Some articleAfterUpdate"]
      articleReducer_unknown_event [OF h, of None]
    by simp
qed

section \<open>Rows and events of the Prisma adapter\<close>

text \<open>
  C9. Converting an event to a row and back gives the event again, with its six fields,
  exactly when its timestamp is reproduced by \<^verbatim>\<open>new Date(s).toISOString()\<close>; for any
  other timestamp the round trip gives another event or throws.
\<close>

theorem rowToEvent_eventToRow:
  fixes e :: event
  shows "(rowToEvent (eventToRow other e) = Inr e)
         = (toISOString (new_Date other (eventCreatedAt e)) = Inr (eventCreatedAt e))"
proof (cases "toISOString (new_Date other (eventCreatedAt e))")
  case (Inl err)
  then show ?thesis by (simp add: rowToEvent_def eventToRow_def bindE_def)
next
  case (Inr iso)
  have "(\<lparr>eventId = eventId e, eventName = eventName e, eventCreatedAt = iso,
           entityName = entityName e, entityId = entityId e, body = body e\<rparr> = e)
        = (iso = eventCreatedAt e)"
    by (cases e) auto
  with Inr show ?thesis by (simp add: rowToEvent_def eventToRow_def bindE_def)
qed

theorem rowToEvent_eventToRow_witness:
  "toISOString (new_Date no_other_format (eventCreatedAt createdEvent))
     = Inr (eventCreatedAt createdEvent)
   \<and> rowToEvent (eventToRow no_other_format createdEvent) = Inr createdEvent"
proof -
  have h: "toISOString (new_Date no_other_format (eventCreatedAt createdEvent))
             = Inr (eventCreatedAt createdEvent)"
    by (simp add: createdEvent_def parse_created_at iso_created_at)
  show ?thesis
    using h rowToEvent_eventToRow [of no_other_format createdEvent] by simp
qed

section \<open>The Standard Schema provider: parsing events\<close>

lemma sublist_join: "k \<in> set ks \<Longrightarrow> sublist k (join sep ks)"
proof (induction sep ks rule: join.induct)
  case (1 sep)
  then show ?case by simp
next
  case (2 sep x)
  then show ?case by simp
next
  case (3 sep x y ys)
  show ?case
  proof (cases "k = x")
    case True
    then show ?thesis by simp
  next
    case False
    with 3 have "sublist k (join sep (y # ys))" by simp
    then obtain ps ss where "join sep (y # ys) = ps @ k @ ss" by (auto simp add: sublist_def)
    then have "join sep (x # y # ys) = (x @ sep @ ps) @ k @ ss" by simp
    then show ?thesis unfolding sublist_def by blast
  qed
qed

lemma lookup_absent:
  "name \<notin> set (map fst obj) \<Longrightarrow> name \<notin> set objectPrototypeNames \<Longrightarrow> lookup obj name = Undefined"
proof -
  assume "name \<notin> set (map fst obj)" and n: "name \<notin> set objectPrototypeNames"
  then have "map_of obj name = None" by (simp add: map_of_eq_None_iff)
  then show ?thesis using n by (simp add: lookup_def)
qed

lemma parseEventByName_absent_or_own:
  \<open>(name \<notin> set (map fst args_event) \<and> name \<notin> set objectPrototypeNames \<longrightarrow>
      parseEventByName args_event name input
        = Inl (Error (''Event name "'' @ name @ ''" not found. Available events: ''
                      @ join '', '' (map fst args_event)))
      \<and> list_all (\<lambda>k. sublist k (join '', '' (map fst args_event))) (map fst args_event))
   \<and> (map_of args_event name = Some schema \<longrightarrow>
      parseEventByName args_event name input = standardValidate schema input (Some name)
      \<and> (schema input = Success v \<longrightarrow> parseEventByName args_event name input = Inr v))\<close>
proof (intro conjI impI)
  assume "name \<notin> set (map fst args_event) \<and> name \<notin> set objectPrototypeNames"
  then have "lookup args_event name = Undefined" by (simp add: lookup_absent)
  then show \<open>parseEventByName args_event name input
        = Inl (Error (''Event name "'' @ name @ ''" not found. Available events: ''
                      @ join '', '' (map fst args_event)))\<close>
    by (simp add: parseEventByName_def)
next
  show "list_all (\<lambda>k. sublist k (join '', '' (map fst args_event))) (map fst args_event)"
    unfolding list_all_iff using sublist_join by blast
next
  assume "map_of args_event name = Some schema"
  then show "parseEventByName args_event name input = standardValidate schema input (Some name)"
    by (simp add: parseEventByName_def lookup_def)
next
  assume "map_of args_event name = Some schema" "schema input = Success v"
  then show "parseEventByName args_event name input = Inr v"
    by (simp add: parseEventByName_def lookup_def standardValidate_def)
qed

text \<open>
  C5. \<^verbatim>\<open>parseEventByName\<close> is to fail, for every name that is not registered in the event
  map, with the error that lists the registered names, and to validate the input for a
  registered name. The code decides "not registered" by the falsiness of
  \<^verbatim>\<open>args.event[eventName]\<close>, and that read also finds what the map inherits from
  \<^verbatim>\<open>Object.prototype\<close>. So with the two events \<^verbatim>\<open>user:created\<close> and \<^verbatim>\<open>user:deleted\<close>
  registered: the unregistered names \<^verbatim>\<open>toString\<close> and \<^verbatim>\<open>__proto__\<close> do not get the
  listing error, they get a \<^verbatim>\<open>TypeError\<close> from the validation that is attempted with
  the inherited value; the unregistered name \<^verbatim>\<open>user:renamed\<close> gets the listing error
  with both registered names; the registered name \<^verbatim>\<open>user:created\<close> is validated and the
  typed value returned.
\<close>

theorem parseEventByName_inherited_name:
  \<open>''toString'' \<notin> set (map fst userEvents)
   \<and> ''__proto__'' \<notin> set (map fst userEvents)
   \<and> parseEventByName userEvents ''toString'' (JStr ''x'')
       = Inl (TypeError ''Cannot read properties of undefined (reading validate)'')
   \<and> parseEventByName userEvents ''__proto__'' (JStr ''x'')
       = Inl (TypeError ''Cannot read properties of undefined (reading validate)'')
   \<and> parseEventByName userEvents ''toString'' (JStr ''x'')
       \<noteq> Inl (Error ''Event name "toString" not found. Available events: user:created, user:deleted'')
   \<and> parseEventByName userEvents ''user:renamed'' (JStr ''x'')
       = Inl (Error ''Event name "user:renamed" not found. Available events: user:created, user:deleted'')
   \<and> parseEventByName userEvents ''user:created'' (JStr ''x'') = Inr (JStr ''x'')\<close>
  by (simp add: parseEventByName_def lookup_def objectPrototypeNames_def userEvents_def
      standardValidate_def stringSchema_def)

lemma parseEvent_loop_all_fail:
  "list_all (\<lambda>s. \<not> succeeds s input) schemas \<Longrightarrow> parseEvent_loop schemas input = Inl (Error ''Validation failed'')"
  by (induction schemas) (auto simp add: succeeds_def standardValidate_def split: result.splits)

lemma parseEvent_loop_first:
  "list_all (\<lambda>s. \<not> succeeds s input) before \<Longrightarrow> schema input = Success v \<Longrightarrow>
   parseEvent_loop (before @ schema # after) input = Inr v"
  by (induction before) (auto simp add: succeeds_def standardValidate_def split: result.splits)

text \<open>
  C6. \<^verbatim>\<open>parseEvent\<close> tries the schemas in the order of the event map. When none
  accepts the input it fails with the error \<^verbatim>\<open>Validation failed\<close>, which names no
  event. When a schema accepts the input and no schema before it does, the result is
  that schema's value.
\<close>

theorem parseEvent_first_success:
  "(list_all (\<lambda>s. \<not> succeeds s input) (map snd args_event) \<longrightarrow>
      parseEvent args_event input = Inl (Error ''Validation failed''))
   \<and> (map snd args_event = before @ schema # after
       \<and> list_all (\<lambda>s. \<not> succeeds s input) before \<and> schema input = Success v \<longrightarrow>
      parseEvent args_event input = Inr v)"
  by (simp add: parseEvent_def parseEvent_loop_all_fail parseEvent_loop_first)

theorem parseEvent_first_success_witness:
  "list_all (\<lambda>s. \<not> succeeds s JNull) (map snd userEvents)
   \<and> parseEvent userEvents JNull = Inl (Error ''Validation failed'')
   \<and> map snd userEvents = [stringSchema] @ boolSchema # []
   \<and> list_all (\<lambda>s. \<not> succeeds s (JBool True)) [stringSchema]
   \<and> boolSchema (JBool True) = Success (JBool True)
   \<and> parseEvent userEvents (JBool True) = Inr (JBool True)"
proof -
  have h1: "list_all (\<lambda>s. \<not> succeeds s JNull) (map snd userEvents)"
    by (simp add: userEvents_def succeeds_def stringSchema_def boolSchema_def)
  have h2: "map snd userEvents = [stringSchema] @ boolSchema # []" by (simp add: userEvents_def)
  have h3: "list_all (\<lambda>s. \<not> succeeds s (JBool True)) [stringSchema]"
    by (simp add: succeeds_def stringSchema_def)
  have h4: "boolSchema (JBool True) = Success (JBool True)" by (simp add: boolSchema_def)
  show ?thesis
    using h1 h2 h3 h4
      parseEvent_first_success [of JNull userEvents "[]" stringSchema "[boolSchema]" JNull]
      parseEvent_first_success [of "JBool True" userEvents "[stringSchema]" boolSchema "[]" "JBool True"]
    by simp
qed

lemma standardValidate_Promise:
  "schema input = Promise \<Longrightarrow>
   standardValidate schema input name = Inl (Error ''Promise validation result is not supported'')"
  by (simp add: standardValidate_def)

lemma parseEvent_skip_failed:
  "standardValidate schema input None = Inl err \<Longrightarrow>
   parseEvent (before @ (k, schema) # after) input = parseEvent (before @ after) input"
  by (induction before) (auto simp add: parseEvent_def split: sum.splits)

text \<open>
  C10, as the code has it. A schema whose \<^verbatim>\<open>validate\<close> returns a \<^verbatim>\<open>Promise\<close> is never
  awaited. \<^verbatim>\<open>parseEventByName\<close>, for the name registered with it, and \<^verbatim>\<open>parseState\<close>
  throw \<^verbatim>\<open>Promise validation result is not supported\<close>. \<^verbatim>\<open>parseEvent\<close> swallows that
  error with the others: the asynchronous schema counts as one that failed, the result
  is what the remaining schemas give, and with no other schema it is the generic
  \<^verbatim>\<open>Validation failed\<close>.
\<close>

theorem promise_rejected_or_skipped:
  assumes "schema input = Promise"
  shows "(map_of args_event name = Some schema \<longrightarrow>
            parseEventByName args_event name input
              = Inl (Error ''Promise validation result is not supported''))
         \<and> parseState schema input = Inl (Error ''Promise validation result is not supported'')
         \<and> parseEvent (before @ (k, schema) # after) input = parseEvent (before @ after) input
         \<and> parseEvent [(k, schema)] input = Inl (Error ''Validation failed'')"
proof -
  have v: "standardValidate schema input nm = Inl (Error ''Promise validation result is not supported'')" for nm
    using assms by (rule standardValidate_Promise)
  have "parseEvent (before @ (k, schema) # after) input = parseEvent (before @ after) input"
    using v by (rule parseEvent_skip_failed)
  then show ?thesis
    using v by (simp add: parseEventByName_def lookup_def parseState_def parseEvent_def)
qed

theorem promise_rejected_or_skipped_witness:
  "asyncSchema JNull = Promise
   \<and> parseEventByName [(''user:created'', asyncSchema)] ''user:created'' JNull
       = Inl (Error ''Promise validation result is not supported'')
   \<and> parseState asyncSchema JNull = Inl (Error ''Promise validation result is not supported'')
   \<and> parseEvent [(''user:created'', asyncSchema), (''user:deleted'', boolSchema)] (JBool True)
       = Inr (JBool True)
   \<and> parseEvent [(''user:created'', asyncSchema)] JNull = Inl (Error ''Validation failed'')"
proof -
  have h: "asyncSchema JNull = Promise" by (simp add: asyncSchema_def)
  have h': "asyncSchema (JBool True) = Promise" by (simp add: asyncSchema_def)
  have m: "map_of [(''user:created'', asyncSchema)] ''user:created'' = Some asyncSchema" by simp
  note t1 = promise_rejected_or_skipped
      [of asyncSchema JNull "[(''user:created'', asyncSchema)]" "''user:created''" "[]" "''user:created''" "[]", OF h]
  note t2 = promise_rejected_or_skipped
      [of asyncSchema "JBool True" "[]" "''x''" "[]" "''user:created''" "[(''user:deleted'', boolSchema)]", OF h']
  have c1: "parseEventByName [(''user:created'', asyncSchema)] ''user:created'' JNull
       = Inl (Error ''Promise validation result is not supported'')"
    using t1 m by blast
  have c2: "parseState asyncSchema JNull = Inl (Error ''Promise validation result is not supported'')"
    using t1 by blast
  have c4: "parseEvent [(''user:created'', asyncSchema)] JNull = Inl (Error ''Validation failed'')"
    using t1 by blast
  have "parseEvent [(''user:created'', asyncSchema), (''user:deleted'', boolSchema)] (JBool True)
          = parseEvent [(''user:deleted'', boolSchema)] (JBool True)"
    using t2 by simp
  then have c3: "parseEvent [(''user:created'', asyncSchema), (''user:deleted'', boolSchema)] (JBool True)
       = Inr (JBool True)"
    by (simp add: parseEvent_def standardValidate_def boolSchema_def)
  show ?thesis using h c1 c2 c3 c4 by simp
qed

text \<open>
  With the asynchronous schema alone, \<^verbatim>\<open>parseEvent\<close> does not throw the error about the
  \<^verbatim>\<open>Promise\<close>: it throws the generic one.
\<close>

theorem parseEvent_swallows_promise_error:
  "asyncSchema JNull = Promise
   \<and> parseEvent [(''user:created'', asyncSchema)] JNull = Inl (Error ''Validation failed'')
   \<and> parseEvent [(''user:created'', asyncSchema)] JNull
       \<noteq> Inl (Error ''Promise validation result is not supported'')"
  by (simp add: asyncSchema_def parseEvent_def standardValidate_def)

section \<open>TypeBox issues and their paths\<close>

lemma replace2_other: "x \<noteq> a \<Longrightarrow> replace2 a b rep (x # xs) = x # replace2 a b rep xs"
  by (cases xs) simp_all

lemma replace2_miss: "y \<noteq> b \<Longrightarrow> replace2 a b rep (a # y # xs) = a # replace2 a b rep (y # xs)"
  by simp

lemma unescape_slash: "replace2 CHR ''~'' CHR ''1'' ''/'' (escape_segment s) = escape_tilde s"
proof (induction s)
  case Nil
  then show ?case by simp
next
  case (Cons c cs)
  show ?case
  proof (cases "c = CHR ''~''")
    case True
    have "replace2 CHR ''~'' CHR ''1'' ''/'' (CHR ''~'' # CHR ''0'' # escape_segment cs)
          = CHR ''~'' # CHR ''0'' # replace2 CHR ''~'' CHR ''1'' ''/'' (escape_segment cs)"
      by (simp add: replace2_other)
    with True Cons show ?thesis by simp
  next
    case False
    show ?thesis
    proof (cases "c = CHR ''/''")
      case True
      with Cons show ?thesis by simp
    next
      case F2: False
      with False Cons show ?thesis by (simp add: replace2_other)
    qed
  qed
qed

lemma unescape_tilde: "replace2 CHR ''~'' CHR ''0'' ''~'' (escape_tilde s) = s"
proof (induction s)
  case Nil
  then show ?case by simp
next
  case (Cons c cs)
  then show ?case by (cases "c = CHR ''~''") (simp_all add: replace2_other)
qed

lemma escape_segment_no_slash: "CHR ''/'' \<notin> set (escape_segment s)"
  by (induction s) auto

lemma split_no_sep: "sep \<notin> set xs \<Longrightarrow> split sep xs = [xs]"
  by (induction xs) auto

lemma split_append: "sep \<notin> set xs \<Longrightarrow> split sep (xs @ sep # ys) = xs # split sep ys"
  by (induction xs) auto

lemma split_pointer:
  "split CHR ''/'' (escape_segment s @ pointer_of rest) = escape_segment s # map escape_segment rest"
proof (induction rest arbitrary: s)
  case Nil
  then show ?case by (simp add: pointer_of_def split_no_sep escape_segment_no_slash)
next
  case (Cons r rest)
  have "pointer_of (r # rest) = CHR ''/'' # (escape_segment r @ pointer_of rest)"
    by (simp add: pointer_of_def)
  then show ?case
    using Cons [of r] by (simp add: split_append escape_segment_no_slash)
qed

lemma PathSegments_pointer_of: "PathSegments (pointer_of segments) = segments"
proof (cases segments)
  case Nil
  then show ?thesis by (simp add: PathSegments_def pointer_of_def)
next
  case (Cons s rest)
  have p: "pointer_of (s # rest) = CHR ''/'' # (escape_segment s @ pointer_of rest)"
    by (simp add: pointer_of_def)
  have "map (\<lambda>segment. replace2 CHR ''~'' CHR ''0'' ''~'' (replace2 CHR ''~'' CHR ''1'' ''/'' segment))
          (map escape_segment (s # rest)) = s # rest"
    by (simp add: unescape_slash unescape_tilde comp_def del: replace2.simps)
  then show ?thesis
    using Cons by (simp add: PathSegments_def p split_pointer del: replace2.simps)
qed

text \<open>
  C7. When a value fails the validator's check, the result of \<^verbatim>\<open>validate\<close> is the list of
  issues made from the validator's errors, one issue per error and in their order; a
  value that passes is returned as the value. The issue of an error carries the error's
  message and, as its path, the segments decoded from the error's \<^verbatim>\<open>instancePath\<close>. The
  empty \<^verbatim>\<open>instancePath\<close> gives the empty path, and the decoding is that of a JSON
  Pointer: the pointer of any sequence of segments decodes to that sequence.
\<close>

theorem validate_reports_issues:
  "(\<not> Check validator v \<longrightarrow>
      validate validator v = Failure (map Issue (Errors validator v))
      \<and> length (map Issue (Errors validator v)) = length (Errors validator v))
   \<and> (Check validator v \<longrightarrow> validate validator v = Success v)
   \<and> message (Issue err) = errorMessage err
   \<and> path (Issue err) = Some (map PropertyKey (PathSegments (instancePath err)))
   \<and> PathSegments [] = []
   \<and> PathSegments (pointer_of segments) = segments"
  by (simp add: validate_def Issue_def PathSegments_pointer_of) (simp add: PathSegments_def)

theorem validate_reports_issues_witness:
  "\<not> Check stringValidator JNull
   \<and> validate stringValidator JNull
       = Failure
           [\<lparr>message = ''must be string'',
             path = Some [PropertyKey ''body'', PropertyKey ''a/b'', PropertyKey ''~1'']\<rparr>,
            \<lparr>message = ''must be object'', path = Some []\<rparr>]
   \<and> Check stringValidator (JStr ''x'')
   \<and> validate stringValidator (JStr ''x'') = Success (JStr ''x'')
   \<and> PathSegments (pointer_of [''body'', ''a/b'', ''~1'']) = [''body'', ''a/b'', ''~1'']"
proof -
  have h1: "\<not> Check stringValidator JNull" by (simp add: stringValidator_def isString_def)
  have h2: "Check stringValidator (JStr ''x'')" by (simp add: stringValidator_def isString_def)
  have e: "map Issue (Errors stringValidator JNull)
           = [\<lparr>message = ''must be string'',
                path = Some [PropertyKey ''body'', PropertyKey ''a/b'', PropertyKey ''~1'']\<rparr>,
              \<lparr>message = ''must be object'', path = Some []\<rparr>]"
    by (simp add: stringValidator_def twoErrors_def Issue_def PathSegments_def)
  note t1 = validate_reports_issues [of stringValidator JNull undefined "[''body'', ''a/b'', ''~1'']"]
  note t2 = validate_reports_issues [of stringValidator "JStr ''x''" undefined "[]"]
  have c1: "validate stringValidator JNull = Failure (map Issue (Errors stringValidator JNull))"
    using t1 h1 by blast
  have c2: "validate stringValidator (JStr ''x'') = Success (JStr ''x'')"
    using t2 h2 by blast
  have c3: "PathSegments (pointer_of [''body'', ''a/b'', ''~1'']) = [''body'', ''a/b'', ''~1'']"
    using t1 by blast
  show ?thesis using h1 h2 c1 c2 c3 e by simp
qed

section \<open>The Prisma adapter: reading\<close>

lemma row_created:
  "rowToEvent (eventToRow other createdEvent) = Inr createdEvent"
  by (simp add: rowToEvent_def eventToRow_def createdEvent_def parse_created_at iso_created_at bindE_def)

lemma row_title_updated:
  "rowToEvent (eventToRow other titleUpdatedEvent) = Inr titleUpdatedEvent"
  by (simp add: rowToEvent_def eventToRow_def titleUpdatedEvent_def parse_updated_at iso_updated_at bindE_def)

lemma stored_rows_article_1:
  "storedRows ''article'' ''article-1'' twoEventsDb = eventTable twoEventsDb"
  by (simp add: storedRows_def twoEventsDb_def eventToRow_def createdEvent_def titleUpdatedEvent_def)

lemma stored_rows_article_2:
  "storedRows ''article'' ''article-2'' twoEventsDb = []"
  by (simp add: storedRows_def twoEventsDb_def eventToRow_def createdEvent_def titleUpdatedEvent_def)


lemma events_of_two_rows_rev:
  "mapE rowToEvent (rev (eventTable twoEventsDb)) = Inr [titleUpdatedEvent, createdEvent]"
  by (simp add: twoEventsDb_def row_created row_title_updated)

lemma row_round_trip:
  fixes e :: event
  assumes "toISOString (new_Date other (eventCreatedAt e)) = Inr (eventCreatedAt e)"
  shows "rowToEvent (eventToRow other e) = Inr e"
  using assms by (cases e) (simp add: rowToEvent_def eventToRow_def bindE_def)

lemma mapE_append:
  "mapE f (xs @ ys) =
     (case mapE f xs of
        Inl e \<Rightarrow> Inl e
      | Inr a \<Rightarrow> (case mapE f ys of Inl e \<Rightarrow> Inl e | Inr b \<Rightarrow> Inr (a @ b)))"
  by (induction xs) (auto split: sum.splits)

lemma rows_round_trip:
  "list_all (\<lambda>e. toISOString (new_Date other (eventCreatedAt e)) = Inr (eventCreatedAt e)) events \<Longrightarrow>
   mapE rowToEvent (map (eventToRow other) events) = Inr events"
  by (induction events) (simp_all add: row_round_trip)

lemma commit_appends:
  assumes "commitEvents other insertionOrderClient events ident st db = (Inr (), db')"
  shows "eventTable db' = eventTable db @ map (eventToRow other) events"
  using assms
  by (auto simp add: commitEvents_def insertionOrderClient_def atomic_transaction_def
      run_command_def Let_def split: sum.splits if_splits)

lemma events_read_in_commit_order:
  assumes "commitEvents other insertionOrderClient events ident st db = (Inr (), db')"
    and "list_all (\<lambda>e. entityName e = name \<and> entityId e = ident
           \<and> toISOString (new_Date other (eventCreatedAt e)) = Inr (eventCreatedAt e)) events"
    and "getEventsByEntityId insertionOrderClient name ident db = Inr before"
  shows "getEventsByEntityId insertionOrderClient name ident db' = Inr (before @ events)"
proof -
  have match: "filter (\<lambda>r. entityName r = name \<and> entityId r = ident)
                 (map (eventToRow other) events) = map (eventToRow other) events"
    using assms(2) by (induction events) (simp_all add: eventToRow_def)
  have canon: "list_all (\<lambda>e. toISOString (new_Date other (eventCreatedAt e))
                 = Inr (eventCreatedAt e)) events"
    using assms(2) by (simp add: list_all_iff)
  have "storedRows name ident db'
          = storedRows name ident db @ map (eventToRow other) events"
    using commit_appends [OF assms(1)] match by (simp add: storedRows_def)
  moreover have "mapE rowToEvent (storedRows name ident db) = Inr before"
    using assms(3)
    by (simp add: getEventsByEntityId_def insertionOrderClient_def findMany_inserted_def bindE_def)
  ultimately show ?thesis
    using rows_round_trip [OF canon]
    by (simp add: getEventsByEntityId_def insertionOrderClient_def findMany_inserted_def
        bindE_def mapE_append)
qed

lemma commit_two_events:
  "commitEvents no_other_format insertionOrderClient [createdEvent, titleUpdatedEvent]
     ''article-1'' articleAfterUpdate emptyDb = (Inr (), twoEventsDb)"
  by (simp add: commitEvents_def insertionOrderClient_def atomic_transaction_def run_command_def
      emptyDb_def twoEventsDb_def eventToRow_def createdEvent_def titleUpdatedEvent_def
      parse_created_at parse_updated_at valid_created_at valid_updated_at Let_def
      titled_def snapshotOf_def articleAfterUpdate_def)

text \<open>
  C4. \<^verbatim>\<open>getEventsByEntityId\<close> is to return the events stored for an entity in the order of
  their creation. The adapter asks the event table's \<^verbatim>\<open>findMany\<close> with a \<^verbatim>\<open>where\<close> and
  no \<^verbatim>\<open>orderBy\<close>, and hands the rows on in the order in which they come back. At the
  database that holds the rows of \<^verbatim>\<open>article:created\<close> and \<^verbatim>\<open>article:title_updated\<close>, in
  that order, and a table that answers newest row first, the adapter returns the title
  update before the creation. The reducer run over the events in that order ends in the
  title \<^verbatim>\<open>"T"\<close> of the creation, where the order of creation gives \<^verbatim>\<open>"T2"\<close>.
\<close>

theorem getEventsByEntityId_not_in_creation_order:
  "storedRows ''article'' ''article-1'' twoEventsDb
     = [eventToRow no_other_format createdEvent, eventToRow no_other_format titleUpdatedEvent]
   \<and> findMany newestFirstClient ''article'' ''article-1'' twoEventsDb
     = Inr [eventToRow no_other_format titleUpdatedEvent, eventToRow no_other_format createdEvent]
   \<and> getEventsByEntityId newestFirstClient ''article'' ''article-1'' twoEventsDb
     = Inr [titleUpdatedEvent, createdEvent]
   \<and> [titleUpdatedEvent, createdEvent] \<noteq> [createdEvent, titleUpdatedEvent]
   \<and> articleReducer None titleUpdatedEvent = Inr (Some [(''title'', JStr ''T2'')])
   \<and> articleReducer (Some [(''title'', JStr ''T2'')]) createdEvent = Inr (Some articleAfterCreate)
   \<and> map_of articleAfterCreate ''title'' = Some (JStr ''T'')
   \<and> map_of articleAfterUpdate ''title'' = Some (JStr ''T2'')"
proof -
  have a: "storedRows ''article'' ''article-1'' twoEventsDb
     = [eventToRow no_other_format createdEvent, eventToRow no_other_format titleUpdatedEvent]"
    by (simp add: stored_rows_article_1) (simp add: twoEventsDb_def)
  have b: "findMany newestFirstClient ''article'' ''article-1'' twoEventsDb
     = Inr [eventToRow no_other_format titleUpdatedEvent, eventToRow no_other_format createdEvent]"
    by (simp add: newestFirstClient_def findMany_newest_first_def a)
  have c: "getEventsByEntityId newestFirstClient ''article'' ''article-1'' twoEventsDb
     = Inr [titleUpdatedEvent, createdEvent]"
    by (simp add: getEventsByEntityId_def b bindE_def row_created row_title_updated)
  have d: "[titleUpdatedEvent, createdEvent] \<noteq> [createdEvent, titleUpdatedEvent]"
    by (simp add: createdEvent_def titleUpdatedEvent_def)
  have e: "articleReducer None titleUpdatedEvent = Inr (Some [(''title'', JStr ''T2'')])"
    by (simp add: articleReducer_def titleUpdatedEvent_def getProp_def bindE_def spread_def)
  have f: "articleReducer (Some [(''title'', JStr ''T2'')]) createdEvent
             = Inr (Some articleAfterCreate)"
    by (simp add: articleReducer_def createdEvent_def initialBody_def getProp_def bindE_def
        articleAfterCreate_def)
  have g: "map_of articleAfterCreate ''title'' = Some (JStr ''T'')"
    by (simp add: articleAfterCreate_def)
  have h: "map_of articleAfterUpdate ''title'' = Some (JStr ''T2'')"
    by (simp add: articleAfterUpdate_def)
  show ?thesis using a b c d e f g h by blast
qed

section \<open>The Prisma adapter: committing\<close>

lemma eventToRow_fields:
  "list_all2 (\<lambda>e r. eventId r = eventId e \<and> eventName r = eventName e
                   \<and> entityName r = entityName e \<and> entityId r = entityId e \<and> body r = body e
                   \<and> eventCreatedAt r = new_Date other (eventCreatedAt e))
     events (map (eventToRow other) events)"
  by (induction events) (simp_all add: eventToRow_def)

lemma commit_all_or_nothing:
  "(case commitEvents other insertionOrderClient events ident st sdb of
      (Inl err, sdb') \<Rightarrow> sdb' = sdb
    | (Inr u, sdb') \<Rightarrow>
        eventTable sdb' = eventTable sdb @ map (eventToRow other) events
        \<and> map_of (snapshotTable sdb') ident = Some (snapshotOf ident st))"
  by (auto simp add: commitEvents_def insertionOrderClient_def atomic_transaction_def
      run_command_def Let_def update_Some_unfold split: sum.splits if_splits)

text \<open>
  C1. \<^verbatim>\<open>commitEvents\<close> makes one call of \<^verbatim>\<open>$transaction\<close>, with the list of exactly two
  writes: the \<^verbatim>\<open>createMany\<close> of the rows of the new events and the \<^verbatim>\<open>upsert\<close> of the
  snapshot row under the entity's id. The rows are the events, one row per event and in
  their order, each with the event's id, names, entity id and body and with the date of
  its timestamp. Under the all-or-nothing contract of the transaction, whatever running
  one write does: when either write fails the commit fails with that error and the
  database is as before; otherwise both writes have taken effect, in that order. On the
  database of the two tables this says: a commit that fails leaves the database
  unchanged, and after one that succeeds the event table holds the rows of the new events
  after the earlier rows and the snapshot table holds the snapshot of the state under the
  entity's id; the events committed, with timestamps that \<^verbatim>\<open>toISOString\<close> reproduces,
  are then read back after the earlier ones.
\<close>

theorem commitEvents_one_transaction:
  "commitEvents other options events ident st db
     = transaction options
         [createMany options (map (eventToRow other) events),
          upsert options ident (entityToRow options ident st) (entityToRow options ident st)]
         db
   \<and> list_all2 (\<lambda>e r. eventId r = eventId e \<and> eventName r = eventName e
                   \<and> entityName r = entityName e \<and> entityId r = entityId e \<and> body r = body e
                   \<and> eventCreatedAt r = new_Date other (eventCreatedAt e))
        events (map (eventToRow other) events)
   \<and> (transaction options = atomic_transaction run \<longrightarrow>
        (case run (createMany options (map (eventToRow other) events)) db of
           Inl err \<Rightarrow> commitEvents other options events ident st db = (Inl err, db)
         | Inr db1 \<Rightarrow>
             (case run (upsert options ident (entityToRow options ident st)
                          (entityToRow options ident st)) db1 of
                Inl err \<Rightarrow> commitEvents other options events ident st db = (Inl err, db)
              | Inr db2 \<Rightarrow> commitEvents other options events ident st db = (Inr (), db2))))
   \<and> (case commitEvents other insertionOrderClient events ident st sdb of
         (Inl err, sdb') \<Rightarrow> sdb' = sdb
       | (Inr u, sdb') \<Rightarrow>
           eventTable sdb' = eventTable sdb @ map (eventToRow other) events
           \<and> map_of (snapshotTable sdb') ident = Some (snapshotOf ident st))
   \<and> (commitEvents other insertionOrderClient events ident st sdb = (Inr (), sdb_after)
       \<and> list_all (\<lambda>e. entityName e = name \<and> entityId e = ident
             \<and> toISOString (new_Date other (eventCreatedAt e)) = Inr (eventCreatedAt e)) events
       \<and> getEventsByEntityId insertionOrderClient name ident sdb = Inr before \<longrightarrow>
        getEventsByEntityId insertionOrderClient name ident sdb_after = Inr (before @ events))"
proof (intro conjI impI)
  show "commitEvents other options events ident st db
     = transaction options
         [createMany options (map (eventToRow other) events),
          upsert options ident (entityToRow options ident st) (entityToRow options ident st)]
         db"
    by (simp add: commitEvents_def Let_def)
next
  show "list_all2 (\<lambda>e r. eventId r = eventId e \<and> eventName r = eventName e
                   \<and> entityName r = entityName e \<and> entityId r = entityId e \<and> body r = body e
                   \<and> eventCreatedAt r = new_Date other (eventCreatedAt e))
        events (map (eventToRow other) events)"
    by (rule eventToRow_fields)
next
  assume "transaction options = atomic_transaction run"
  then show "case run (createMany options (map (eventToRow other) events)) db of
           Inl err \<Rightarrow> commitEvents other options events ident st db = (Inl err, db)
         | Inr db1 \<Rightarrow>
             (case run (upsert options ident (entityToRow options ident st)
                          (entityToRow options ident st)) db1 of
                Inl err \<Rightarrow> commitEvents other options events ident st db = (Inl err, db)
              | Inr db2 \<Rightarrow> commitEvents other options events ident st db = (Inr (), db2))"
    by (simp add: commitEvents_def Let_def atomic_transaction_def split: sum.splits)
next
  show "case commitEvents other insertionOrderClient events ident st sdb of
         (Inl err, sdb') \<Rightarrow> sdb' = sdb
       | (Inr u, sdb') \<Rightarrow>
           eventTable sdb' = eventTable sdb @ map (eventToRow other) events
           \<and> map_of (snapshotTable sdb') ident = Some (snapshotOf ident st)"
    by (rule commit_all_or_nothing)
next
  assume a: "commitEvents other insertionOrderClient events ident st sdb = (Inr (), sdb_after)
       \<and> list_all (\<lambda>e. entityName e = name \<and> entityId e = ident
             \<and> toISOString (new_Date other (eventCreatedAt e)) = Inr (eventCreatedAt e)) events
       \<and> getEventsByEntityId insertionOrderClient name ident sdb = Inr before"
  show "getEventsByEntityId insertionOrderClient name ident sdb_after = Inr (before @ events)"
    by (rule events_read_in_commit_order [OF a [THEN conjunct1] a [THEN conjunct2, THEN conjunct1]
          a [THEN conjunct2, THEN conjunct2]])
qed

lemma first_write_alone:
  "run_command titled (CreateMany [eventToRow no_other_format pinnedEvent]) twoEventsDb
     = Inr threeRowsDb"
  by (simp add: run_command_def twoEventsDb_def threeRowsDb_def eventToRow_def createdEvent_def
      titleUpdatedEvent_def pinnedEvent_def parse_created_at parse_updated_at parse_pinned_at
      valid_pinned_at)

lemma second_write_refused:
  "run_command titled
     (Upsert ''article-1'' (snapshotOf ''article-1'' contentOnlyState)
        (snapshotOf ''article-1'' contentOnlyState)) threeRowsDb
     = Inl (Error ''Null constraint violation on the snapshot'')"
  by (simp add: run_command_def threeRowsDb_def titled_def snapshotOf_def contentOnlyState_def)

lemma duplicate_refused:
  "run_command titled (CreateMany [eventToRow no_other_format createdEvent]) twoEventsDb
     = Inl (Error ''Unique constraint failed on eventId'')"
  by (simp add: run_command_def twoEventsDb_def eventToRow_def createdEvent_def
      titleUpdatedEvent_def parse_created_at parse_updated_at valid_created_at)

theorem commitEvents_one_transaction_witness:
  "transaction insertionOrderClient = atomic_transaction (run_command titled)
   \<and> commitEvents no_other_format insertionOrderClient [createdEvent, titleUpdatedEvent]
        ''article-1'' articleAfterUpdate emptyDb = (Inr (), twoEventsDb)
   \<and> getEventsByEntityId insertionOrderClient ''article'' ''article-1'' twoEventsDb
       = Inr [createdEvent, titleUpdatedEvent]
   \<and> run_command titled (CreateMany [eventToRow no_other_format pinnedEvent]) twoEventsDb
       = Inr threeRowsDb
   \<and> threeRowsDb \<noteq> twoEventsDb
   \<and> commitEvents no_other_format insertionOrderClient [pinnedEvent]
        ''article-1'' contentOnlyState twoEventsDb
       = (Inl (Error ''Null constraint violation on the snapshot''), twoEventsDb)
   \<and> commitEvents no_other_format insertionOrderClient [createdEvent]
        ''article-1'' articleAfterUpdate twoEventsDb
       = (Inl (Error ''Unique constraint failed on eventId''), twoEventsDb)"
proof -
  have h: "transaction insertionOrderClient = atomic_transaction (run_command titled)"
    by (simp add: insertionOrderClient_def)
  have cm: "createMany insertionOrderClient = CreateMany" "upsert insertionOrderClient = Upsert"
      "entityToRow insertionOrderClient = snapshotOf"
    by (simp_all add: insertionOrderClient_def)
  have e: "getEventsByEntityId insertionOrderClient ''article'' ''article-1'' emptyDb = Inr []"
    by (simp add: getEventsByEntityId_def insertionOrderClient_def findMany_inserted_def
        bindE_def storedRows_def emptyDb_def)
  have m: "list_all (\<lambda>e. entityName e = ''article'' \<and> entityId e = ''article-1''
             \<and> toISOString (new_Date no_other_format (eventCreatedAt e)) = Inr (eventCreatedAt e))
             [createdEvent, titleUpdatedEvent]"
    by (simp add: createdEvent_def titleUpdatedEvent_def parse_created_at parse_updated_at
        iso_created_at iso_updated_at)
  have d: "threeRowsDb \<noteq> twoEventsDb"
    by (simp add: threeRowsDb_def twoEventsDb_def)
  note atomic_pinned = commitEvents_one_transaction
      [where other = no_other_format and options = insertionOrderClient
        and events = "[pinnedEvent]" and ident = "''article-1''" and st = contentOnlyState
        and db = twoEventsDb and run = "run_command titled",
        THEN conjunct2, THEN conjunct2, THEN conjunct1, rule_format, OF h]
  note atomic_duplicate = commitEvents_one_transaction
      [where other = no_other_format and options = insertionOrderClient
        and events = "[createdEvent]" and ident = "''article-1''" and st = articleAfterUpdate
        and db = twoEventsDb and run = "run_command titled",
        THEN conjunct2, THEN conjunct2, THEN conjunct1, rule_format, OF h]
  note read_back = commitEvents_one_transaction
      [where other = no_other_format and events = "[createdEvent, titleUpdatedEvent]"
        and ident = "''article-1''" and st = articleAfterUpdate and sdb = emptyDb
        and sdb_after = twoEventsDb and name = "''article''" and before = "[]",
        THEN conjunct2, THEN conjunct2, THEN conjunct2, THEN conjunct2, rule_format,
        OF conjI [OF commit_two_events conjI [OF m e]]]
  have c1: "getEventsByEntityId insertionOrderClient ''article'' ''article-1'' twoEventsDb
       = Inr [createdEvent, titleUpdatedEvent]"
    using read_back by simp
  have c2: "commitEvents no_other_format insertionOrderClient [pinnedEvent]
        ''article-1'' contentOnlyState twoEventsDb
       = (Inl (Error ''Null constraint violation on the snapshot''), twoEventsDb)"
    using atomic_pinned by (simp add: cm first_write_alone second_write_refused)
  have c3: "commitEvents no_other_format insertionOrderClient [createdEvent]
        ''article-1'' articleAfterUpdate twoEventsDb
       = (Inl (Error ''Unique constraint failed on eventId''), twoEventsDb)"
    using atomic_duplicate by (simp add: cm duplicate_refused)
  show ?thesis using h commit_two_events first_write_alone d c1 c2 c3 by blast
qed

section \<open>The article from creation to retrieval\<close>














section \<open>Business rules of an archived article\<close>

lemma archived_getters:
  assumes "state e = Some s" "map_of s ''isArchived'' = Some (JBool True)"
  shows "stateProp e ''isArchived'' = Inr (JBool True)"
    and "canEdit e = Inr False"
    and "canPublish e = Inr False"
    and "canUnpublish e = Inr False"
  using assms
  by (simp_all add: stateProp_def get_state_def bindE_def canEdit_def canPublish_def
      canUnpublish_def truthy_def split: option.splits)

text \<open>
  C8, as the code has it. For every article whose state has \<^verbatim>\<open>isArchived = true\<close>, each of
  \<^verbatim>\<open>updateTitle\<close>, \<^verbatim>\<open>updateContent\<close>, \<^verbatim>\<open>updateTags\<close>, \<^verbatim>\<open>publish\<close> and \<^verbatim>\<open>unpublish\<close>
  throws and leaves the entity, its state and its pending events, as it was, whatever the
  dispatch handle would do: no event is dispatched. On a mutable entity the error is the
  business rule's own (\<^verbatim>\<open>Cannot update title of archived article\<close> and its siblings),
  not the readonly error. On a readonly entity the \<^verbatim>\<open>mutation\<close> wrapper refuses first,
  with the readonly error, and the business rule is not reached.
\<close>

theorem archived_article_rejects_mutation:
  assumes "state e = Some s" and "map_of s ''isArchived'' = Some (JBool True)"
  shows "updateTitle d title e
           = (Inl (if readonly e then ReadonlyEntityError
                   else Error ''Cannot update title of archived article''), e)
       \<and> updateContent d content e
           = (Inl (if readonly e then ReadonlyEntityError
                   else Error ''Cannot update content of archived article''), e)
       \<and> updateTags d tags e
           = (Inl (if readonly e then ReadonlyEntityError
                   else Error ''Cannot update tags of archived article''), e)
       \<and> publish d today e
           = (Inl (if readonly e then ReadonlyEntityError
                   else Error ''Cannot publish archived article''), e)
       \<and> unpublish d reason e
           = (Inl (if readonly e then ReadonlyEntityError
                   else Error ''Cannot unpublish archived article''), e)"
  by (simp add: updateTitle_def updateContent_def updateTags_def publish_def unpublish_def
      mutation_def updateTitle_fn_def updateContent_fn_def updateTags_fn_def publish_fn_def
      unpublish_fn_def archived_getters [OF assms] truthy_def)

theorem archived_article_rejects_mutation_witness:
  "state (Entity_load ''article-1'' archivedState True) = Some archivedState
   \<and> map_of archivedState ''isArchived'' = Some (JBool True)
   \<and> updateTitle (article_dispatch noErrors atUpdate) ''New Title''
        (Entity_load ''article-1'' archivedState True)
       = (Inl (Error ''Cannot update title of archived article''),
          Entity_load ''article-1'' archivedState True)
   \<and> updateContent (article_dispatch noErrors atUpdate) ''New Content''
        (Entity_load ''article-1'' archivedState True)
       = (Inl (Error ''Cannot update content of archived article''),
          Entity_load ''article-1'' archivedState True)
   \<and> updateTags (article_dispatch noErrors atUpdate) [''new'']
        (Entity_load ''article-1'' archivedState True)
       = (Inl (Error ''Cannot update tags of archived article''),
          Entity_load ''article-1'' archivedState True)
   \<and> publish (article_dispatch noErrors atUpdate) ''2024-01-15T10:33:00.000Z''
        (Entity_load ''article-1'' archivedState True)
       = (Inl (Error ''Cannot publish archived article''),
          Entity_load ''article-1'' archivedState True)
   \<and> unpublish (article_dispatch noErrors atUpdate) None
        (Entity_load ''article-1'' archivedState True)
       = (Inl (Error ''Cannot unpublish archived article''),
          Entity_load ''article-1'' archivedState True)"
proof -
  have h1: "state (Entity_load ''article-1'' archivedState True) = Some archivedState"
    by (simp add: Entity_load_def)
  have h2: "map_of archivedState ''isArchived'' = Some (JBool True)"
    by (simp add: archivedState_def)
  have m: "\<not> readonly (Entity_load ''article-1'' archivedState True)"
    by (simp add: Entity_load_def)
  show ?thesis
    using h1 h2 m
      archived_article_rejects_mutation [OF h1 h2, of "article_dispatch noErrors atUpdate"
        "''New Title''" "''New Content''" "[''new'']" "''2024-01-15T10:33:00.000Z''" None]
    by simp
qed

text \<open>
  An archived article loaded readonly: \<^verbatim>\<open>updateTitle\<close> throws the readonly error, not
  the error of the business rule.
\<close>

theorem readonly_archived_article_is_readonly_error:
  "map_of archivedState ''isArchived'' = Some (JBool True)
   \<and> updateTitle (article_dispatch noErrors atUpdate) ''New Title''
        (Entity_load ''article-1'' archivedState False)
       = (Inl ReadonlyEntityError, Entity_load ''article-1'' archivedState False)
   \<and> ReadonlyEntityError \<noteq> Error ''Cannot update title of archived article''"
  by (simp add: archivedState_def updateTitle_def mutation_def Entity_load_def)

end
